theory Spec2Isabelle
  imports Complex_Main
begin

section \<open>Python values, errors and string helpers\<close>

text \<open>
  The values a caller can hand to the setters and to \<open>entropy_bits\<close>. The source tests
  them with \<open>isinstance\<close>; \<open>bool\<close> is a subclass of \<open>int\<close> in Python, so a
  \<open>PBool\<close> passes every \<open>isinstance(x, int)\<close> test. Floats are idealised as reals.
\<close>

datatype pyval =
    PNone
  | PBool bool
  | PInt int
  | PFloat real
  | PComplex real real
  | PStr string
  | PList "pyval list"
  | PTuple "pyval list"

text \<open>The exceptions the source raises (or lets escape from a builtin).\<close>

datatype error = TypeError | ValueError | FileNotFoundError | IndexError | AttributeError

text \<open>An element of a generated sequence: a string or an integer.\<close>

datatype elem = EStr string | EInt int

definition isinstance_int :: "pyval \<Rightarrow> bool" where
  "isinstance_int v = (case v of PBool _ \<Rightarrow> True | PInt _ \<Rightarrow> True | _ \<Rightarrow> False)"

definition isinstance_int_float :: "pyval \<Rightarrow> bool" where
  "isinstance_int_float v =
     (case v of PBool _ \<Rightarrow> True | PInt _ \<Rightarrow> True | PFloat _ \<Rightarrow> True | _ \<Rightarrow> False)"

definition isinstance_str :: "pyval \<Rightarrow> bool" where
  "isinstance_str v = (case v of PStr _ \<Rightarrow> True | _ \<Rightarrow> False)"

definition isinstance_list_tuple :: "pyval \<Rightarrow> bool" where
  "isinstance_list_tuple v = (case v of PList _ \<Rightarrow> True | PTuple _ \<Rightarrow> True | _ \<Rightarrow> False)"

text \<open>The integer behind a value that passed \<open>isinstance(x, int)\<close>: \<open>True\<close> is 1.\<close>

definition int_of :: "pyval \<Rightarrow> int" where
  "int_of v = (case v of PBool b \<Rightarrow> (if b then 1 else 0) | PInt i \<Rightarrow> i | _ \<Rightarrow> 0)"

text \<open>The number behind a value that passed \<open>isinstance(x, (int, float))\<close>.\<close>

definition real_of :: "pyval \<Rightarrow> real" where
  "real_of v =
     (case v of PBool b \<Rightarrow> (if b then 1 else 0) | PInt i \<Rightarrow> of_int i | PFloat x \<Rightarrow> x | _ \<Rightarrow> 0)"

text \<open>The items of a list or tuple (\<open>list(words)\<close>).\<close>

definition items_of :: "pyval \<Rightarrow> pyval list" where
  "items_of v = (case v of PList xs \<Rightarrow> xs | PTuple xs \<Rightarrow> xs | _ \<Rightarrow> [])"

text \<open>Python's \<open>bool(x)\<close>.\<close>

definition py_bool :: "pyval \<Rightarrow> bool" where
  "py_bool v =
     (case v of
        PNone \<Rightarrow> False
      | PBool b \<Rightarrow> b
      | PInt i \<Rightarrow> i \<noteq> 0
      | PFloat x \<Rightarrow> x \<noteq> 0
      | PComplex re im \<Rightarrow> re \<noteq> 0 \<or> im \<noteq> 0
      | PStr s \<Rightarrow> s \<noteq> []
      | PList xs \<Rightarrow> xs \<noteq> []
      | PTuple xs \<Rightarrow> xs \<noteq> [])"

text \<open>\<open>str.upper\<close> and \<open>str.lower\<close> on ASCII text.\<close>

definition char_upper :: "char \<Rightarrow> char" where
  "char_upper c =
     (let n = (of_char c :: nat) in if 97 \<le> n \<and> n \<le> 122 then char_of (n - 32) else c)"

definition char_lower :: "char \<Rightarrow> char" where
  "char_lower c =
     (let n = (of_char c :: nat) in if 65 \<le> n \<and> n \<le> 90 then char_of (n + 32) else c)"

definition str_upper :: "string \<Rightarrow> string" where
  "str_upper s = map char_upper s"

definition str_lower :: "string \<Rightarrow> string" where
  "str_lower s = map char_lower s"

text \<open>Digits of a natural number in a base from 2 to 16, most significant first.\<close>

definition digit_char :: "nat \<Rightarrow> char" where
  "digit_char d = ''0123456789abcdef'' ! d"

function nat_digits :: "nat \<Rightarrow> nat \<Rightarrow> string" where
  "nat_digits b n =
     (if n < b \<or> b < 2 then [digit_char n] else nat_digits b (n div b) @ [digit_char (n mod b)])"
  by pat_completeness auto
termination
  by (relation "measure (\<lambda>(b, n). n)") auto

text \<open>\<open>str(i)\<close> for an integer, and \<open>'{:x}'.format(i)\<close>.\<close>

definition str_int :: "int \<Rightarrow> string" where
  "str_int i = (if i < 0 then CHR ''-'' # nat_digits 10 (nat (- i)) else nat_digits 10 (nat i))"

definition format_x :: "int \<Rightarrow> string" where
  "format_x i = (if i < 0 then CHR ''-'' # nat_digits 16 (nat (- i)) else nat_digits 16 (nat i))"

text \<open>\<open>str(w)\<close> for an element of a result.\<close>

fun py_str :: "elem \<Rightarrow> string" where
  "py_str (EStr s) = s"
| "py_str (EInt i) = str_int i"

text \<open>The character classes of Python's \<open>string\<close> module.\<close>

definition ascii_lowercase :: string where
  "ascii_lowercase = ''abcdefghijklmnopqrstuvwxyz''"

definition ascii_uppercase :: string where
  "ascii_uppercase = ''ABCDEFGHIJKLMNOPQRSTUVWXYZ''"

definition digits :: string where
  "digits = ''0123456789''"

text \<open>The 32 ASCII punctuation characters, in code-point order as in Python.\<close>

definition punctuation :: string where
  "punctuation = map char_of ([33..<48] @ [58..<65] @ [91..<97] @ [123..<127] :: nat list)"

text \<open>Whitespace as \<open>str.strip()\<close> and \<open>str.split()\<close> see it on ASCII text.\<close>

definition is_space :: "char \<Rightarrow> bool" where
  "is_space c = (let n = (of_char c :: nat) in (9 \<le> n \<and> n \<le> 13) \<or> (28 \<le> n \<and> n \<le> 32))"

definition strip :: "string \<Rightarrow> string" where
  "strip s = rev (dropWhile is_space (rev (dropWhile is_space s)))"

text \<open>\<open>s.split()\<close>: the maximal runs of non-whitespace characters.\<close>

fun split_acc :: "string \<Rightarrow> string \<Rightarrow> string list" where
  "split_acc cur [] = (if cur = [] then [] else [cur])"
| "split_acc cur (c # cs) =
     (if is_space c then (if cur = [] then split_acc [] cs else cur # split_acc [] cs)
      else split_acc (cur @ [c]) cs)"

definition split :: "string \<Rightarrow> string list" where
  "split s = split_acc [] s"

section \<open>The collaborators outside \<open>passphrase.py\<close>\<close>

text \<open>
  The module constants of \<open>settings\<close> and \<open>wordlist\<close> and the file system are not part
  of \<open>passphrase.py\<close>; they are parameters of the model. A file is the list of its text
  lines; a path that names no regular file has no entry.
\<close>

record env =
  MIN_NUM :: int
  MAX_NUM :: int
  EFF_LONG_WORDLIST :: "pyval list"
  EFF_LONG_WORDLIST_ENTROPY :: real
  files :: "string \<Rightarrow> string list option"

text \<open>
  The random source: an unbounded tape of natural numbers, read from position 0;
  \<open>rest\<close> is the tape after one read.
\<close>

type_synonym rng = "nat \<Rightarrow> nat"

definition rest :: "rng \<Rightarrow> rng" where
  "rest r = (\<lambda>n. r (Suc n))"

text \<open>
  Modelled from the spec: \<open>secrets.randchoice\<close>, missing from the sources. One element of
  the sequence, chosen by the random source; an empty sequence is an invalid input.
\<close>

definition randchoice :: "rng \<Rightarrow> 'a list \<Rightarrow> error + ('a \<times> rng)" where
  "randchoice r xs =
     (if xs = [] then Inl ValueError else Inr (xs ! (r 0 mod length xs), rest r))"

text \<open>
  Modelled from the spec: \<open>secrets.randbetween\<close>, missing from the sources. An integer
  of the inclusive range \<open>[lo, hi]\<close>, chosen by the random source; an empty range
  has no such integer and is an invalid input.
\<close>

definition randbetween :: "rng \<Rightarrow> int \<Rightarrow> int \<Rightarrow> error + (int \<times> rng)" where
  "randbetween r lo hi =
     (if hi < lo then Inl ValueError
      else Inr (lo + int (r 0 mod nat (hi - lo + 1)), rest r))"

text \<open>
  Modelled from the spec: \<open>secrets.randhex\<close>, missing from the sources: a string of
  random lowercase hex digits from the random source. For its length the sources are
  followed: the comment in \<open>generate_uuid4\<close> (\<open>8-4-4-4-12\<close>) with the last group taken
  as \<open>hexstr[18:]\<close> needs \<open>randhex(30)\<close> to have 30 characters, so \<open>randhex(ndigits)\<close>
  has \<open>ndigits\<close> hex digits (the spec speaks of 60 characters for 30).
\<close>

fun randhex :: "rng \<Rightarrow> nat \<Rightarrow> string \<times> rng" where
  "randhex r 0 = ([], r)"
| "randhex r (Suc k) = (let (s, r') = randhex (rest r) k in (digit_char (r 0 mod 16) # s, r'))"

text \<open>
  Modelled from the spec: \<open>calc.entropy_bits\<close>, missing from the sources. The entropy of
  a symbol set is \<open>log2\<close> of its size; an empty set is an invalid input.
\<close>

definition calc_entropy_bits :: "pyval list \<Rightarrow> error + real" where
  "calc_entropy_bits lst =
     (if lst = [] then Inl ValueError else Inr (log 2 (real (length lst))))"

text \<open>
  Modelled from the spec: \<open>calc.entropy_bits_nrange\<close>, missing from the sources. The
  entropy of the range \<open>[minimum, maximum]\<close> is \<open>log2(maximum - minimum + 1)\<close>; a range
  with \<open>maximum < minimum\<close> is an invalid input.
\<close>

definition calc_entropy_bits_nrange :: "real \<Rightarrow> real \<Rightarrow> error + real" where
  "calc_entropy_bits_nrange minimum maximum =
     (if maximum < minimum then Inl ValueError else Inr (log 2 (maximum - minimum + 1)))"

text \<open>
  Modelled from the spec: \<open>calc.password_length_needed\<close>, missing from the sources. The
  smallest \<open>L\<close> with \<open>L * log2(size) \<ge> target\<close>; a character set of at most one
  character or a negative target is an invalid input.
\<close>

definition calc_password_length_needed :: "real \<Rightarrow> string \<Rightarrow> error + int" where
  "calc_password_length_needed entropybits chars =
     (if length chars \<le> 1 \<or> entropybits < 0 then Inl ValueError
      else Inr \<lceil>entropybits / log 2 (real (length chars))\<rceil>)"

text \<open>
  Modelled from the spec: \<open>calc.words_amount_needed\<close>, missing from the sources:
  \<open>ceil(max(0, target - amount_n * entropy_n) / entropy_w)\<close>; a word entropy that is not
  positive is an invalid input.
\<close>

definition calc_words_amount_needed :: "real \<Rightarrow> real \<Rightarrow> real \<Rightarrow> int \<Rightarrow> error + int" where
  "calc_words_amount_needed entropybits entropy_w entropy_n amount_n =
     (if entropy_w \<le> 0 then Inl ValueError
      else Inr \<lceil>max 0 (entropybits - of_int amount_n * entropy_n) / entropy_w\<rceil>)"

text \<open>
  Modelled from the spec: \<open>calc.passphrase_entropy\<close>, missing from the sources:
  \<open>amount_w * entropy_w + amount_n * entropy_n\<close>.
\<close>

definition calc_passphrase_entropy :: "int \<Rightarrow> real \<Rightarrow> real \<Rightarrow> int \<Rightarrow> real" where
  "calc_passphrase_entropy amount_w entropy_w entropy_n amount_n =
     of_int amount_w * entropy_w + of_int amount_n * entropy_n"

text \<open>
  Modelled from the spec: \<open>calc.password_entropy\<close>, missing from the sources:
  \<open>length * log2(size)\<close>, and 0 for the length 0.
\<close>

definition calc_password_entropy :: "int \<Rightarrow> string \<Rightarrow> real" where
  "calc_password_entropy len chars =
     (if len = 0 then 0 else of_int len * log 2 (real (length chars)))"

text \<open>Lowercase and uppercase letters, as \<open>str.islower\<close> and \<open>str.isupper\<close> on ASCII text.\<close>

definition is_lower :: "char \<Rightarrow> bool" where
  "is_lower c = (let n = (of_char c :: nat) in 97 \<le> n \<and> n \<le> 122)"

definition is_upper :: "char \<Rightarrow> bool" where
  "is_upper c = (let n = (of_char c :: nat) in 65 \<le> n \<and> n \<le> 90)"

text \<open>
  Modelled from the spec: \<open>Aux.lowercase_count\<close>, missing from the sources. The spec
  counts words; the docstring of \<open>generate\<close>, which is in the sources, says that the
  directive is a number of characters ("how many uppercase characters are wanted"), and
  the docstring is followed: the number of lowercase characters in the words.
\<close>

definition lowercase_count :: "string list \<Rightarrow> int" where
  "lowercase_count passphrase = int (length (filter is_lower (concat passphrase)))"

text \<open>The number of uppercase characters in the words, to state what a call did.\<close>

definition uppercase_count :: "string list \<Rightarrow> int" where
  "uppercase_count passphrase = int (length (filter is_upper (concat passphrase)))"

text \<open>
  Modelled from the spec: \<open>Aux.make_all_uppercase\<close>, missing from the sources. "Uppercase
  all words".
\<close>

definition make_all_uppercase :: "string list \<Rightarrow> string list" where
  "make_all_uppercase passphrase = map str_upper passphrase"

text \<open>
  Uppercase the first \<open>k\<close> lowercase characters of a string, and of a list of words
  read from left to right.
\<close>

fun upcase_chars :: "nat \<Rightarrow> string \<Rightarrow> string" where
  "upcase_chars k [] = []"
| "upcase_chars k (c # cs) =
     (if 0 < k \<and> is_lower c then char_upper c # upcase_chars (k - 1) cs
      else c # upcase_chars k cs)"

fun upcase_words :: "nat \<Rightarrow> string list \<Rightarrow> string list" where
  "upcase_words k [] = []"
| "upcase_words k (w # ws) =
     upcase_chars k w # upcase_words (k - length (filter is_lower w)) ws"

text \<open>
  Modelled from the spec: \<open>Aux.make_chars_uppercase\<close>, missing from the sources. By the
  docstring of \<open>generate\<close> ("bigger than zero means that many characters") it makes
  \<open>uppercase\<close> lowercase characters of the words uppercase, where the spec has it
  uppercase whole words. Which characters is not said in the sources; the spec allows a
  fixed choice, and the model takes the first ones.
\<close>

definition make_chars_uppercase :: "string list \<Rightarrow> int \<Rightarrow> string list" where
  "make_chars_uppercase passphrase uppercase = upcase_words (nat uppercase) passphrase"

text \<open>
  Modelled from the spec: \<open>Aux.isfile_notempty\<close>, missing from the sources. The path
  names a regular file that is not empty.
\<close>

definition isfile_notempty :: "env \<Rightarrow> string \<Rightarrow> bool" where
  "isfile_notempty e inputfile =
     (case files e inputfile of None \<Rightarrow> False | Some ls \<Rightarrow> ls \<noteq> [])"

section \<open>The class \<open>Passphrase\<close>\<close>

text \<open>
  The instance attributes. A field that \<open>__init__\<close> sets to \<open>None\<close> is an option. The
  integer fields hold the numeric value of what was assigned (a \<open>bool\<close> that passed the
  \<open>isinstance(x, int)\<close> test is kept as 0 or 1).
\<close>

record passphrase =
  entropy_bits_req :: "real option"
  randnum_min :: int
  randnum_max :: int
  amount_w :: "int option"
  amount_n :: "int option"
  passwordlen :: "int option"
  separator :: string
  wordlist :: "pyval list option"
  wordlist_entropy_bits :: "real option"
  password_use_lowercase :: bool
  password_use_uppercase :: bool
  password_use_digits :: bool
  password_use_punctuation :: bool
  last_result :: "elem list option"

text \<open>
  A method call ends with a value or with an exception, and leaves the object in some
  state either way: the second component is the object after the call.
\<close>

type_synonym 'a outcome = "(error + 'a) \<times> passphrase"

subsection \<open>The property setters\<close>

definition entropy_bits_req_setter :: "pyval \<Rightarrow> passphrase \<Rightarrow> unit outcome" where
  "entropy_bits_req_setter entropybits self =
     (if \<not> isinstance_int_float entropybits then (Inl TypeError, self)
      else if real_of entropybits < 0 then (Inl ValueError, self)
      else (Inr (), self\<lparr>entropy_bits_req := Some (real_of entropybits)\<rparr>))"

definition randnum_min_setter :: "pyval \<Rightarrow> passphrase \<Rightarrow> unit outcome" where
  "randnum_min_setter randnum self =
     (if \<not> isinstance_int randnum then (Inl TypeError, self)
      else if int_of randnum < 0 then (Inl ValueError, self)
      else (Inr (), self\<lparr>randnum_min := int_of randnum\<rparr>))"

definition randnum_max_setter :: "pyval \<Rightarrow> passphrase \<Rightarrow> unit outcome" where
  "randnum_max_setter randnum self =
     (if \<not> isinstance_int randnum then (Inl TypeError, self)
      else if int_of randnum < 0 then (Inl ValueError, self)
      else (Inr (), self\<lparr>randnum_max := int_of randnum\<rparr>))"

definition amount_w_setter :: "pyval \<Rightarrow> passphrase \<Rightarrow> unit outcome" where
  "amount_w_setter amount self =
     (if \<not> isinstance_int amount then (Inl TypeError, self)
      else if int_of amount < 0 then (Inl ValueError, self)
      else (Inr (), self\<lparr>amount_w := Some (int_of amount)\<rparr>))"

definition amount_n_setter :: "pyval \<Rightarrow> passphrase \<Rightarrow> unit outcome" where
  "amount_n_setter amount self =
     (if \<not> isinstance_int amount then (Inl TypeError, self)
      else if int_of amount < 0 then (Inl ValueError, self)
      else (Inr (), self\<lparr>amount_n := Some (int_of amount)\<rparr>))"

definition passwordlen_setter :: "pyval \<Rightarrow> passphrase \<Rightarrow> unit outcome" where
  "passwordlen_setter len self =
     (if \<not> isinstance_int len then (Inl TypeError, self)
      else if int_of len < 0 then (Inl ValueError, self)
      else (Inr (), self\<lparr>passwordlen := Some (int_of len)\<rparr>))"

definition separator_setter :: "pyval \<Rightarrow> passphrase \<Rightarrow> unit outcome" where
  "separator_setter sep self =
     (case sep of
        PStr s \<Rightarrow> (Inr (), self\<lparr>separator := s\<rparr>)
      | _ \<Rightarrow> (Inl TypeError, self))"

definition wordlist_setter :: "pyval \<Rightarrow> passphrase \<Rightarrow> unit outcome" where
  "wordlist_setter words self =
     (if \<not> isinstance_list_tuple words then (Inl TypeError, self)
      else (Inr (), self\<lparr>wordlist := Some (items_of words), wordlist_entropy_bits := None\<rparr>))"

definition password_use_lowercase_setter :: "pyval \<Rightarrow> passphrase \<Rightarrow> unit outcome" where
  "password_use_lowercase_setter use_lowercase self =
     (Inr (), self\<lparr>password_use_lowercase := py_bool use_lowercase\<rparr>)"

definition password_use_uppercase_setter :: "pyval \<Rightarrow> passphrase \<Rightarrow> unit outcome" where
  "password_use_uppercase_setter use_uppercase self =
     (Inr (), self\<lparr>password_use_uppercase := py_bool use_uppercase\<rparr>)"

definition password_use_digits_setter :: "pyval \<Rightarrow> passphrase \<Rightarrow> unit outcome" where
  "password_use_digits_setter use_digits self =
     (Inr (), self\<lparr>password_use_digits := py_bool use_digits\<rparr>)"

definition password_use_punctuation_setter :: "pyval \<Rightarrow> passphrase \<Rightarrow> unit outcome" where
  "password_use_punctuation_setter use_punctuation self =
     (Inr (), self\<lparr>password_use_punctuation := py_bool use_punctuation\<rparr>)"

subsection \<open>Reading word files\<close>

text \<open>\<open>[word.strip() for word in open(inputfile)]\<close>, on the lines of the file.\<close>

definition read_words_from_wordfile :: "string list \<Rightarrow> pyval list" where
  "read_words_from_wordfile ls = map (\<lambda>word. PStr (strip word)) ls"

text \<open>
  \<open>[word.split()[1] for word in open(inputfile)]\<close>: a line with fewer than two columns
  has no index 1, and the comprehension ends with \<open>IndexError\<close>.
\<close>

fun read_words_from_diceware :: "string list \<Rightarrow> error + pyval list" where
  "read_words_from_diceware [] = Inr []"
| "read_words_from_diceware (word # ls) =
     (case split word of
        _ # w # _ \<Rightarrow>
          (case read_words_from_diceware ls of
             Inl e \<Rightarrow> Inl e
           | Inr ws \<Rightarrow> Inr (PStr w # ws))
      | _ \<Rightarrow> Inl IndexError)"

subsection \<open>Character set, construction, rendering\<close>

definition get_password_characters :: "passphrase \<Rightarrow> string" where
  "get_password_characters self =
     (if password_use_lowercase self then ascii_lowercase else []) @
     (if password_use_uppercase self then ascii_uppercase else []) @
     (if password_use_digits self then digits else []) @
     (if password_use_punctuation self then punctuation else [])"

definition load_internal_wordlist :: "env \<Rightarrow> passphrase \<Rightarrow> unit outcome" where
  "load_internal_wordlist e self =
     (Inr (), self\<lparr>wordlist := Some (EFF_LONG_WORDLIST e),
                   wordlist_entropy_bits := Some (EFF_LONG_WORDLIST_ENTROPY e)\<rparr>)"

definition import_words_from_file ::
  "env \<Rightarrow> string \<Rightarrow> bool \<Rightarrow> passphrase \<Rightarrow> unit outcome" where
  "import_words_from_file e inputfile is_diceware self =
     (if \<not> isfile_notempty e inputfile then (Inl FileNotFoundError, self)
      else
        let self1 = self\<lparr>wordlist_entropy_bits := None\<rparr>;
            ls = (case files e inputfile of None \<Rightarrow> [] | Some ls \<Rightarrow> ls)
        in if is_diceware then
             (case read_words_from_diceware ls of
                Inl err \<Rightarrow> (Inl err, self1)
              | Inr ws \<Rightarrow> (Inr (), self1\<lparr>wordlist := Some ws\<rparr>))
           else (Inr (), self1\<lparr>wordlist := Some (read_words_from_wordfile ls)\<rparr>))"

text \<open>The attributes as \<open>__init__\<close> sets them before it looks at \<open>inputfile\<close>.\<close>

definition init_fields :: "env \<Rightarrow> passphrase" where
  "init_fields e =
     \<lparr>entropy_bits_req = None,
      randnum_min = MIN_NUM e,
      randnum_max = MAX_NUM e,
      amount_w = None,
      amount_n = None,
      passwordlen = None,
      separator = '' '',
      wordlist = None,
      wordlist_entropy_bits = None,
      password_use_lowercase = True,
      password_use_uppercase = True,
      password_use_digits = True,
      password_use_punctuation = True,
      last_result = None\<rparr>"

text \<open>\<open>Passphrase(inputfile, is_diceware)\<close>; \<open>inputfile\<close> defaults to \<open>None\<close>.\<close>

definition init :: "env \<Rightarrow> string option \<Rightarrow> bool \<Rightarrow> unit outcome" where
  "init e inputfile is_diceware =
     (case inputfile of
        None \<Rightarrow> (Inr (), init_fields e)
      | Some f \<Rightarrow>
          if f = ''internal'' then load_internal_wordlist e (init_fields e)
          else import_words_from_file e f is_diceware (init_fields e))"

text \<open>\<open>s[:rm_last_separator:]\<close> with \<open>rm_last_separator\<close> either \<open>-k\<close> (\<open>k > 0\<close>) or \<open>None\<close>.\<close>

definition slice_to :: "string \<Rightarrow> int option \<Rightarrow> string" where
  "slice_to s stop =
     (case stop of
        None \<Rightarrow> s
      | Some i \<Rightarrow> if i < 0 then take (nat (int (length s) + i)) s else take (nat i) s)"

text \<open>\<open>__str__\<close>.\<close>

definition to_str :: "passphrase \<Rightarrow> string" where
  "to_str self =
     (case last_result self of
        None \<Rightarrow> []
      | Some res \<Rightarrow>
          if res = [] then []
          else
            let separator_len = int (length (separator self));
                rm_last_separator = (if separator_len > 0 then Some (- separator_len) else None)
            in slice_to (concat (map (\<lambda>w. py_str w @ separator self) res)) rm_last_separator)"

subsection \<open>Entropy queries\<close>

text \<open>The static method \<open>entropy_bits\<close>.\<close>

definition entropy_bits :: "pyval \<Rightarrow> error + real" where
  "entropy_bits lst =
     (if \<not> isinstance_list_tuple lst then Inl TypeError
      else
        let xs = items_of lst; size = length xs
        in if size = 2 \<and> isinstance_int_float (xs ! 0) \<and> isinstance_int_float (xs ! 1)
           then calc_entropy_bits_nrange (real_of (xs ! 0)) (real_of (xs ! 1))
           else calc_entropy_bits xs)"

text \<open>
  \<open>self._wordlist_entropy_bits if self._wordlist_entropy_bits else
  self.entropy_bits(self.wordlist)\<close>: a cache that is \<open>None\<close> or \<open>0.0\<close> is falsy.
\<close>

definition entropy_w_of :: "passphrase \<Rightarrow> error + real" where
  "entropy_w_of self =
     (let fresh = entropy_bits (PList (case wordlist self of None \<Rightarrow> [] | Some wl \<Rightarrow> wl))
      in case wordlist_entropy_bits self of
           None \<Rightarrow> fresh
         | Some x \<Rightarrow> if x \<noteq> 0 then Inr x else fresh)"

definition entropy_n_of :: "passphrase \<Rightarrow> error + real" where
  "entropy_n_of self = entropy_bits (PTuple [PInt (randnum_min self), PInt (randnum_max self)])"

definition password_length_needed :: "passphrase \<Rightarrow> int outcome" where
  "password_length_needed self =
     (let characters = get_password_characters self
      in case entropy_bits_req self of
           None \<Rightarrow> (Inl ValueError, self)
         | Some bits \<Rightarrow>
             if characters = [] then (Inl ValueError, self)
             else (calc_password_length_needed bits characters, self))"

definition words_amount_needed :: "passphrase \<Rightarrow> int outcome" where
  "words_amount_needed self =
     (if entropy_bits_req self = None \<or> amount_n self = None
         \<or> wordlist self = None \<or> wordlist self = Some []
      then (Inl ValueError, self)
      else
        case entropy_n_of self of
          Inl err \<Rightarrow> (Inl err, self)
        | Inr entropy_n \<Rightarrow>
            (case entropy_w_of self of
               Inl err \<Rightarrow> (Inl err, self)
             | Inr entropy_w \<Rightarrow>
                 (calc_words_amount_needed (the (entropy_bits_req self)) entropy_w entropy_n
                    (the (amount_n self)), self)))"

definition generated_password_entropy :: "passphrase \<Rightarrow> real outcome" where
  "generated_password_entropy self =
     (let characters = get_password_characters self
      in case passwordlen self of
           None \<Rightarrow> (Inl ValueError, self)
         | Some len \<Rightarrow>
             if characters = [] then (Inl ValueError, self)
             else if len = 0 then (Inr 0, self)
             else (Inr (calc_password_entropy len characters), self))"

definition generated_passphrase_entropy :: "passphrase \<Rightarrow> real outcome" where
  "generated_passphrase_entropy self =
     (if amount_w self = None \<or> amount_n self = None
         \<or> wordlist self = None \<or> wordlist self = Some []
      then (Inl ValueError, self)
      else if amount_n self = Some 0 \<and> amount_w self = Some 0 then (Inr 0, self)
      else
        case entropy_n_of self of
          Inl err \<Rightarrow> (Inl err, self)
        | Inr entropy_n \<Rightarrow>
            (case entropy_w_of self of
               Inl err \<Rightarrow> (Inl err, self)
             | Inr entropy_w \<Rightarrow>
                 (Inr (calc_passphrase_entropy (the (amount_w self)) entropy_w entropy_n
                         (the (amount_n self))), self)))"

subsection \<open>Generation\<close>

text \<open>\<open>randchoice(self.wordlist).lower()\<close>: only a string has the method \<open>lower\<close>.\<close>

definition py_lower :: "pyval \<Rightarrow> error + string" where
  "py_lower v = (case v of PStr s \<Rightarrow> Inr (str_lower s) | _ \<Rightarrow> Inl AttributeError)"

text \<open>The first loop of \<open>generate\<close>, run \<open>k\<close> times.\<close>

fun draw_words :: "rng \<Rightarrow> pyval list \<Rightarrow> nat \<Rightarrow> error + (string list \<times> rng)" where
  "draw_words r wl 0 = Inr ([], r)"
| "draw_words r wl (Suc k) =
     (case randchoice r wl of
        Inl err \<Rightarrow> Inl err
      | Inr (w, r1) \<Rightarrow>
          (case py_lower w of
             Inl err \<Rightarrow> Inl err
           | Inr lw \<Rightarrow>
               (case draw_words r1 wl k of
                  Inl err \<Rightarrow> Inl err
                | Inr (ws, r2) \<Rightarrow> Inr (lw # ws, r2))))"

text \<open>The second loop of \<open>generate\<close>, run \<open>k\<close> times.\<close>

fun draw_numbers :: "rng \<Rightarrow> int \<Rightarrow> int \<Rightarrow> nat \<Rightarrow> error + (int list \<times> rng)" where
  "draw_numbers r lo hi 0 = Inr ([], r)"
| "draw_numbers r lo hi (Suc k) =
     (case randbetween r lo hi of
        Inl err \<Rightarrow> Inl err
      | Inr (n, r1) \<Rightarrow>
          (case draw_numbers r1 lo hi k of
             Inl err \<Rightarrow> Inl err
           | Inr (ns, r2) \<Rightarrow> Inr (n # ns, r2)))"

text \<open>The loop of \<open>generate_password\<close>, run \<open>k\<close> times.\<close>

fun draw_chars :: "rng \<Rightarrow> string \<Rightarrow> nat \<Rightarrow> error + (char list \<times> rng)" where
  "draw_chars r characterset 0 = Inr ([], r)"
| "draw_chars r characterset (Suc k) =
     (case randchoice r characterset of
        Inl err \<Rightarrow> Inl err
      | Inr (c, r1) \<Rightarrow>
          (case draw_chars r1 characterset k of
             Inl err \<Rightarrow> Inl err
           | Inr (cs, r2) \<Rightarrow> Inr (c # cs, r2)))"

text \<open>
  The block "Handle uppercase" of \<open>generate\<close>: \<open>uppercase\<close> is \<open>None\<close> or has passed the
  \<open>isinstance(uppercase, int)\<close> test.
\<close>

definition handle_uppercase :: "string list \<Rightarrow> pyval \<Rightarrow> string list" where
  "handle_uppercase passphrase uppercase =
     (let lowercase = lowercase_count passphrase
      in if passphrase \<noteq> [] \<and> uppercase \<noteq> PNone then
           let u0 = int_of uppercase;
               u = (if u0 < 0 \<and> lowercase > u0 * (- 1) then lowercase + u0 else u0)
           in if u = 0 \<or> u > lowercase then make_all_uppercase passphrase
              else if u > 0 then make_chars_uppercase passphrase u
              else passphrase
         else passphrase)"

definition generate :: "rng \<Rightarrow> pyval \<Rightarrow> passphrase \<Rightarrow> elem list outcome" where
  "generate r uppercase self =
     (if amount_n self = None \<or> amount_w self = None
         \<or> wordlist self = None \<or> wordlist self = Some []
      then (Inl ValueError, self)
      else if uppercase \<noteq> PNone \<and> \<not> isinstance_int uppercase then (Inl TypeError, self)
      else
        case draw_words r (the (wordlist self)) (nat (the (amount_w self))) of
          Inl err \<Rightarrow> (Inl err, self)
        | Inr (passphrase, r1) \<Rightarrow>
            (case draw_numbers r1 (randnum_min self) (randnum_max self)
                    (nat (the (amount_n self))) of
               Inl err \<Rightarrow> (Inl err, self)
             | Inr (numbers, r2) \<Rightarrow>
                 let result = map EStr (handle_uppercase passphrase uppercase) @ map EInt numbers
                 in (Inr result, self\<lparr>last_result := Some result\<rparr>)))"

definition generate_password :: "rng \<Rightarrow> passphrase \<Rightarrow> elem list outcome" where
  "generate_password r self =
     (let characterset = get_password_characters self
      in case passwordlen self of
           None \<Rightarrow> (Inl ValueError, self)
         | Some len \<Rightarrow>
             if characterset = [] then (Inl ValueError, self)
             else
               (case draw_chars r characterset (nat len) of
                  Inl err \<Rightarrow> (Inl err, self)
                | Inr (password, r1) \<Rightarrow>
                    let result = map (\<lambda>c. EStr [c]) password
                    in (Inr result, self\<lparr>last_result := Some result\<rparr>)))"

text \<open>The five parts of \<open>generate_uuid4\<close>, from the hex string and the variant digit.\<close>

definition uuid4_parts :: "string \<Rightarrow> int \<Rightarrow> string list" where
  "uuid4_parts hexstr variant =
     [take 8 hexstr,
      take 4 (drop 8 hexstr),
      CHR ''4'' # take 3 (drop 12 hexstr),
      format_x variant @ take 3 (drop 15 hexstr),
      drop 18 hexstr]"

definition generate_uuid4 :: "rng \<Rightarrow> passphrase \<Rightarrow> elem list outcome" where
  "generate_uuid4 r self =
     (let (hexstr, r1) = randhex r 30
      in case randbetween r1 8 11 of
           Inl err \<Rightarrow> (Inl err, self)
         | Inr (variant, r2) \<Rightarrow>
             let uuid4 = map EStr (uuid4_parts hexstr variant)
             in (Inr uuid4, self\<lparr>last_result := Some uuid4\<rparr>))"

section \<open>Example data\<close>

text \<open>
  A small environment, a random tape and a configured object, used to run the model on
  concrete inputs.
\<close>

definition sample_env :: env where
  "sample_env =
     \<lparr>MIN_NUM = 100000,
      MAX_NUM = 999999,
      EFF_LONG_WORDLIST = [PStr ''abacus'', PStr ''abdomen'', PStr ''abdominal'', PStr ''abide''],
      EFF_LONG_WORDLIST_ENTROPY = 2,
      files = (\<lambda>p. if p = ''words.txt'' then Some [''apple'', '' pear '']
                   else if p = ''dice.txt'' then Some [''11111 apple'', ''11112 pear'']
                   else if p = ''empty.txt'' then Some []
                   else None)\<rparr>"

definition sample_rng :: rng where
  "sample_rng = (\<lambda>n. n)"

definition sample_rng_from :: "nat \<Rightarrow> rng" where
  "sample_rng_from k = (\<lambda>n. n + k)"

definition sample_state :: passphrase where
  "sample_state =
     (init_fields sample_env)
       \<lparr>wordlist := Some [PStr ''Alpha'', PStr ''bravo'', PStr ''charlie''],
        amount_w := Some 5,
        amount_n := Some 0\<rparr>"

section \<open>Reachable states and the rendering the spec asks for\<close>

text \<open>
  The states an object can be in: what a successful construction leaves, and what any
  setter or method call leaves after that, whether it returned or raised.
\<close>

inductive reachable :: "env \<Rightarrow> passphrase \<Rightarrow> bool" for e :: env where
  constructed:
    "fst (init e inputfile is_diceware) = Inr () \<Longrightarrow>
     reachable e (snd (init e inputfile is_diceware))"
| set_entropy_bits_req: "reachable e s \<Longrightarrow> reachable e (snd (entropy_bits_req_setter v s))"
| set_randnum_min: "reachable e s \<Longrightarrow> reachable e (snd (randnum_min_setter v s))"
| set_randnum_max: "reachable e s \<Longrightarrow> reachable e (snd (randnum_max_setter v s))"
| set_amount_w: "reachable e s \<Longrightarrow> reachable e (snd (amount_w_setter v s))"
| set_amount_n: "reachable e s \<Longrightarrow> reachable e (snd (amount_n_setter v s))"
| set_passwordlen: "reachable e s \<Longrightarrow> reachable e (snd (passwordlen_setter v s))"
| set_separator: "reachable e s \<Longrightarrow> reachable e (snd (separator_setter v s))"
| set_wordlist: "reachable e s \<Longrightarrow> reachable e (snd (wordlist_setter v s))"
| set_use_lowercase: "reachable e s \<Longrightarrow> reachable e (snd (password_use_lowercase_setter v s))"
| set_use_uppercase: "reachable e s \<Longrightarrow> reachable e (snd (password_use_uppercase_setter v s))"
| set_use_digits: "reachable e s \<Longrightarrow> reachable e (snd (password_use_digits_setter v s))"
| set_use_punctuation:
    "reachable e s \<Longrightarrow> reachable e (snd (password_use_punctuation_setter v s))"
| call_load_internal_wordlist: "reachable e s \<Longrightarrow> reachable e (snd (load_internal_wordlist e s))"
| call_import_words_from_file:
    "reachable e s \<Longrightarrow> reachable e (snd (import_words_from_file e inputfile is_diceware s))"
| call_generate: "reachable e s \<Longrightarrow> reachable e (snd (generate r uppercase s))"
| call_generate_password: "reachable e s \<Longrightarrow> reachable e (snd (generate_password r s))"
| call_generate_uuid4: "reachable e s \<Longrightarrow> reachable e (snd (generate_uuid4 r s))"

text \<open>
  The rendering in the spec's words: the strings joined by the separator, with no
  trailing separator; the empty sequence renders as the empty string.
\<close>

fun spec_join :: "string \<Rightarrow> string list \<Rightarrow> string" where
  "spec_join sep [] = []"
| "spec_join sep [x] = x"
| "spec_join sep (x # y # ys) = x @ sep @ spec_join sep (y # ys)"

section \<open>The uppercase directive of \<open>generate\<close>\<close>

text \<open>
  Lowercase and uppercase letters, and what uppercasing the first \<open>k\<close> lowercase
  characters does to the counts.
\<close>

lemma upper_of_lower:
  "is_lower c \<Longrightarrow> is_upper (char_upper c) \<and> \<not> is_lower (char_upper c)
     \<and> char_lower (char_upper c) = c \<and> char_lower c = c"
  by (auto simp: is_lower_def is_upper_def char_upper_def char_lower_def Let_def)

lemma upper_of_other: "\<not> is_lower c \<Longrightarrow> char_upper c = c"
  by (auto simp: is_lower_def char_upper_def Let_def)

lemma not_lower_and_upper: "is_lower c \<Longrightarrow> \<not> is_upper c"
  by (simp add: is_lower_def is_upper_def Let_def)

lemma lowered_not_upper:
  assumes "char_lower c = c"
  shows "\<not> is_upper c"
proof
  assume u: "is_upper c"
  from assms have "(of_char (char_lower c) :: nat) = of_char c" by simp
  with u show False
    by (simp add: char_lower_def is_upper_def Let_def)
qed

lemma upcase_chars_lower: "map char_lower (upcase_chars k w) = map char_lower w"
  by (induction k w rule: upcase_chars.induct) (auto simp: upper_of_lower)

lemma upcase_chars_lowercase:
  "length (filter is_lower (upcase_chars k w)) = length (filter is_lower w) - k"
  by (induction k w rule: upcase_chars.induct) (auto simp: upper_of_lower Suc_diff_le)

lemma upcase_chars_uppercase:
  "length (filter is_upper (upcase_chars k w))
     = length (filter is_upper w) + min k (length (filter is_lower w))"
  by (induction k w rule: upcase_chars.induct)
     (auto simp: upper_of_lower not_lower_and_upper)

lemma upcase_chars_all:
  "length (filter is_lower w) \<le> k \<Longrightarrow> upcase_chars k w = map char_upper w"
  by (induction k w rule: upcase_chars.induct) (auto simp: upper_of_other split: if_splits)

lemma upcase_words_lower: "map str_lower (upcase_words k ws) = map str_lower ws"
  by (induction k ws rule: upcase_words.induct) (simp_all add: str_lower_def upcase_chars_lower)

lemma upcase_words_lowercase:
  "lowercase_count (upcase_words k ws) = int (nat (lowercase_count ws) - k)"
  by (induction k ws rule: upcase_words.induct)
     (auto simp: lowercase_count_def upcase_chars_lowercase)

lemma upcase_words_uppercase:
  "uppercase_count (upcase_words k ws)
     = uppercase_count ws + int (min k (nat (lowercase_count ws)))"
  by (induction k ws rule: upcase_words.induct)
     (auto simp: lowercase_count_def uppercase_count_def upcase_chars_uppercase)

lemma upcase_words_all:
  "nat (lowercase_count ws) \<le> k \<Longrightarrow> upcase_words k ws = map str_upper ws"
  by (induction k ws rule: upcase_words.induct)
     (auto simp: lowercase_count_def str_upper_def upcase_chars_all)

lemma lowered_word_no_upper: "str_lower w = w \<Longrightarrow> filter is_upper w = []"
  by (induction w) (auto simp: str_lower_def lowered_not_upper)

lemma lowered_words_uppercase_count:
  "\<forall>w\<in>set ws. str_lower w = w \<Longrightarrow> uppercase_count ws = 0"
  by (induction ws) (auto simp: uppercase_count_def lowered_word_no_upper)

lemma lowercase_count_nonneg: "0 \<le> lowercase_count ws"
  by (simp add: lowercase_count_def)

text \<open>
  The block "Handle uppercase" by cases of the directive, and the effect of
  \<open>make_chars_uppercase\<close> with a count that the words can take.
\<close>

lemma handle_uppercase_pos:
  assumes "0 < u"
  shows "handle_uppercase ws (PInt u) =
     (if lowercase_count ws \<le> u then map str_upper ws else make_chars_uppercase ws u)"
proof (cases "ws = []")
  case True
  with assms show ?thesis
    by (simp add: handle_uppercase_def lowercase_count_def)
next
  case False
  show ?thesis
  proof (cases "lowercase_count ws = u")
    case True
    then have "upcase_words (nat u) ws = map str_upper ws"
      by (intro upcase_words_all) simp
    with True False assms show ?thesis
      by (simp add: handle_uppercase_def int_of_def Let_def make_chars_uppercase_def)
  next
    case neq: False
    with False assms show ?thesis
      by (auto simp: handle_uppercase_def int_of_def Let_def make_all_uppercase_def)
  qed
qed

lemma handle_uppercase_nonpos:
  assumes "u \<le> 0"
  shows "handle_uppercase ws (PInt u) =
     (if u = 0 then map str_upper ws
      else if - u < lowercase_count ws then make_chars_uppercase ws (lowercase_count ws + u)
      else ws)"
proof (cases "ws = []")
  case True
  with assms show ?thesis
    by (simp add: handle_uppercase_def lowercase_count_def)
next
  case False
  with assms lowercase_count_nonneg [of ws] show ?thesis
    by (auto simp: handle_uppercase_def int_of_def Let_def make_all_uppercase_def)
qed

lemma make_chars_uppercase_effect:
  assumes "0 \<le> k" and "k \<le> lowercase_count ws"
  shows "map str_lower (make_chars_uppercase ws k) = map str_lower ws \<and>
         lowercase_count (make_chars_uppercase ws k) = lowercase_count ws - k \<and>
         uppercase_count (make_chars_uppercase ws k) = uppercase_count ws + k"
proof -
  from assms have "nat k \<le> nat (lowercase_count ws)" by simp
  with assms show ?thesis
    by (simp add: make_chars_uppercase_def upcase_words_lower upcase_words_lowercase
        upcase_words_uppercase min_def)
qed

lemma char_lower_idem: "char_lower (char_lower c) = char_lower c"
  by (auto simp: char_lower_def Let_def)

text \<open>
  The first loop yields exactly \<open>k\<close> words, each of them lower-cased.
\<close>

lemma draw_words_shape:
  "draw_words r wl k = Inr (ws, r1) \<Longrightarrow> length ws = k \<and> (\<forall>w\<in>set ws. str_lower w = w)"
proof (induction k arbitrary: r ws r1)
  case 0
  then show ?case by simp
next
  case (Suc k)
  then show ?case
    by (auto simp: py_lower_def str_lower_def char_lower_idem
        split: sum.splits prod.splits pyval.splits)
qed

text \<open>
  A successful \<open>generate\<close> returns the drawn words after the uppercase block, followed by
  the drawn numbers.
\<close>

lemma generate_result:
  assumes "fst (generate r up self) = Inr res"
  shows "\<exists>ws ns r1 r2.
           draw_words r (the (wordlist self)) (nat (the (amount_w self))) = Inr (ws, r1) \<and>
           draw_numbers r1 (randnum_min self) (randnum_max self) (nat (the (amount_n self)))
             = Inr (ns, r2) \<and>
           res = map EStr (handle_uppercase ws up) @ map EInt ns"
  using assms
  by (auto simp: generate_def Let_def split: if_splits sum.splits prod.splits)

lemma lower_of_upper_lowered: "char_lower c = c \<Longrightarrow> char_lower (char_upper c) = c"
  by (cases "is_lower c") (simp_all add: upper_of_lower upper_of_other)

lemma lowered_words_upper_lower:
  "\<forall>w\<in>set ws. str_lower w = w \<Longrightarrow> map str_lower (map str_upper ws) = ws"
proof -
  have w: "str_lower w = w \<Longrightarrow> str_lower (str_upper w) = w" for w
    by (induction w) (auto simp: str_lower_def str_upper_def lower_of_upper_lowered)
  show "\<forall>w\<in>set ws. str_lower w = w \<Longrightarrow> map str_lower (map str_upper ws) = ws"
    by (induction ws) (auto simp: w)
qed

lemma lowered_words_lower: "\<forall>w\<in>set ws. str_lower w = w \<Longrightarrow> map str_lower ws = ws"
  by (induction ws) auto

text \<open>
  Claim C1, as the code has it. \<open>generate\<close> with a directive \<open>u \<le> 0\<close> draws its
  lower-cased words; let \<open>n\<close> be what \<open>lowercase_count\<close> gives for them, the number of their
  lowercase characters. For a negative \<open>u\<close> with \<open>n > -u\<close> the effective count is \<open>n + u\<close>:
  exactly \<open>n + u\<close> characters are uppercased and \<open>-u\<close> stay lowercase. For a negative \<open>u\<close>
  with \<open>n \<le> -u\<close> the directive stays negative and nothing is uppercased, so a negative
  directive never yields the count 0. The count 0 is the directive 0 itself, and it
  uppercases all words. In every case only the case of letters changes.
\<close>

theorem generate_negative_directive:
  assumes "fst (generate r (PInt u) self) = Inr res" and "u \<le> 0"
  shows "\<exists>ws ns r1 r2.
           draw_words r (the (wordlist self)) (nat (the (amount_w self))) = Inr (ws, r1) \<and>
           draw_numbers r1 (randnum_min self) (randnum_max self) (nat (the (amount_n self)))
             = Inr (ns, r2) \<and>
           length ws = nat (the (amount_w self)) \<and> (\<forall>w\<in>set ws. str_lower w = w) \<and>
           uppercase_count ws = 0 \<and>
           res = map EStr (handle_uppercase ws (PInt u)) @ map EInt ns \<and>
           map str_lower (handle_uppercase ws (PInt u)) = ws \<and>
           (if u = 0 then handle_uppercase ws (PInt u) = map str_upper ws
            else if - u < lowercase_count ws
            then uppercase_count (handle_uppercase ws (PInt u)) = lowercase_count ws + u \<and>
                 lowercase_count (handle_uppercase ws (PInt u)) = - u
            else handle_uppercase ws (PInt u) = ws)"
proof -
  from generate_result [OF assms(1)] obtain ws ns r1 r2 where
    d: "draw_words r (the (wordlist self)) (nat (the (amount_w self))) = Inr (ws, r1)" and
    n: "draw_numbers r1 (randnum_min self) (randnum_max self) (nat (the (amount_n self)))
          = Inr (ns, r2)" and
    r: "res = map EStr (handle_uppercase ws (PInt u)) @ map EInt ns"
    by blast
  from draw_words_shape [OF d] have
    len: "length ws = nat (the (amount_w self))" and low: "\<forall>w\<in>set ws. str_lower w = w"
    by simp_all
  from low have up0: "uppercase_count ws = 0" by (rule lowered_words_uppercase_count)
  note h = handle_uppercase_nonpos [OF assms(2), of ws]
  have "map str_lower (handle_uppercase ws (PInt u)) = ws \<and>
        (if u = 0 then handle_uppercase ws (PInt u) = map str_upper ws
         else if - u < lowercase_count ws
         then uppercase_count (handle_uppercase ws (PInt u)) = lowercase_count ws + u \<and>
              lowercase_count (handle_uppercase ws (PInt u)) = - u
         else handle_uppercase ws (PInt u) = ws)"
  proof (cases "u = 0")
    case True
    with h lowered_words_upper_lower [OF low] show ?thesis by (simp del: map_map)
  next
    case False
    show ?thesis
    proof (cases "- u < lowercase_count ws")
      case True
      with assms(2) False have k: "0 \<le> lowercase_count ws + u"
        "lowercase_count ws + u \<le> lowercase_count ws" by simp_all
      from make_chars_uppercase_effect [OF k] h True False low up0 show ?thesis
        by (simp add: lowered_words_lower)
    next
      case no: False
      with h False low show ?thesis by (simp add: lowered_words_lower)
    qed
  qed
  with d n len low up0 r show ?thesis by blast
qed

theorem generate_negative_directive_witness:
  "fst (generate sample_rng (PInt (- 2)) sample_state)
     = Inr [EStr ''ALPHA'', EStr ''BRAVO'', EStr ''CHARLIE'', EStr ''ALPHA'', EStr ''BRAvo'']
   \<and> (- 2 :: int) \<le> 0
   \<and> (\<exists>ws ns r1 r2.
         draw_words sample_rng (the (wordlist sample_state)) (nat (the (amount_w sample_state)))
           = Inr (ws, r1) \<and>
         draw_numbers r1 (randnum_min sample_state) (randnum_max sample_state)
             (nat (the (amount_n sample_state))) = Inr (ns, r2) \<and>
         length ws = nat (the (amount_w sample_state)) \<and> (\<forall>w\<in>set ws. str_lower w = w) \<and>
         uppercase_count ws = 0 \<and>
         [EStr ''ALPHA'', EStr ''BRAVO'', EStr ''CHARLIE'', EStr ''ALPHA'', EStr ''BRAvo'']
           = map EStr (handle_uppercase ws (PInt (- 2))) @ map EInt ns \<and>
         map str_lower (handle_uppercase ws (PInt (- 2))) = ws \<and>
         (if (- 2 :: int) = 0 then handle_uppercase ws (PInt (- 2)) = map str_upper ws
          else if - (- 2) < lowercase_count ws
          then uppercase_count (handle_uppercase ws (PInt (- 2))) = lowercase_count ws + (- 2) \<and>
               lowercase_count (handle_uppercase ws (PInt (- 2))) = - (- 2)
          else handle_uppercase ws (PInt (- 2)) = ws))"
proof -
  have h: "fst (generate sample_rng (PInt (- 2)) sample_state)
     = Inr [EStr ''ALPHA'', EStr ''BRAVO'', EStr ''CHARLIE'', EStr ''ALPHA'', EStr ''BRAvo'']"
    by code_simp
  have n: "(- 2 :: int) \<le> 0" by simp
  from h n generate_negative_directive [OF h n] show ?thesis by blast
qed

text \<open>
  Five words of 27 letters and the directive \<open>-5\<close>: 22 letters are uppercased and 5
  stay lowercase, so the five words are not all uppercased. (Which 5 letters stay
  lowercase is the choice of \<open>make_chars_uppercase\<close>; the counts do not depend on it.)
\<close>

theorem generate_minus_five_counterexample:
  "fst (generate sample_rng (PInt (- 5)) sample_state)
     = Inr [EStr ''ALPHA'', EStr ''BRAVO'', EStr ''CHARLIE'', EStr ''ALPHA'', EStr ''bravo'']
   \<and> lowercase_count [''ALPHA'', ''BRAVO'', ''CHARLIE'', ''ALPHA'', ''bravo''] = 5
   \<and> uppercase_count [''ALPHA'', ''BRAVO'', ''CHARLIE'', ''ALPHA'', ''bravo''] = 22
   \<and> [''ALPHA'', ''BRAVO'', ''CHARLIE'', ''ALPHA'', ''bravo'']
       \<noteq> map str_upper [''alpha'', ''bravo'', ''charlie'', ''alpha'', ''bravo'']"
proof -
  have a: "fst (generate sample_rng (PInt (- 5)) sample_state)
     = Inr [EStr ''ALPHA'', EStr ''BRAVO'', EStr ''CHARLIE'', EStr ''ALPHA'', EStr ''bravo'']"
    by code_simp
  have b: "lowercase_count [''ALPHA'', ''BRAVO'', ''CHARLIE'', ''ALPHA'', ''bravo''] = 5"
    by code_simp
  have c: "uppercase_count [''ALPHA'', ''BRAVO'', ''CHARLIE'', ''ALPHA'', ''bravo''] = 22"
    by code_simp
  have d: "[''ALPHA'', ''BRAVO'', ''CHARLIE'', ''ALPHA'', ''bravo'']
       \<noteq> map str_upper [''alpha'', ''bravo'', ''charlie'', ''alpha'', ''bravo'']"
    by code_simp
  from a b c d show ?thesis by blast
qed

text \<open>
  Claim C2, as the code has it. \<open>generate\<close> with a positive directive \<open>u\<close> draws its
  lower-cased words; let \<open>n\<close> be what \<open>lowercase_count\<close> gives for them, the number of their
  lowercase characters. If \<open>u \<ge> n\<close> every word is uppercased; if \<open>0 < u < n\<close> exactly \<open>u\<close>
  characters are uppercased and \<open>n - u\<close> stay lowercase. In both cases only the case of
  letters changes.
\<close>

theorem generate_positive_directive:
  assumes "fst (generate r (PInt u) self) = Inr res" and "0 < u"
  shows "\<exists>ws ns r1 r2.
           draw_words r (the (wordlist self)) (nat (the (amount_w self))) = Inr (ws, r1) \<and>
           draw_numbers r1 (randnum_min self) (randnum_max self) (nat (the (amount_n self)))
             = Inr (ns, r2) \<and>
           length ws = nat (the (amount_w self)) \<and> (\<forall>w\<in>set ws. str_lower w = w) \<and>
           uppercase_count ws = 0 \<and>
           res = map EStr (handle_uppercase ws (PInt u)) @ map EInt ns \<and>
           map str_lower (handle_uppercase ws (PInt u)) = ws \<and>
           (if lowercase_count ws \<le> u then handle_uppercase ws (PInt u) = map str_upper ws
            else uppercase_count (handle_uppercase ws (PInt u)) = u \<and>
                 lowercase_count (handle_uppercase ws (PInt u)) = lowercase_count ws - u)"
proof -
  from generate_result [OF assms(1)] obtain ws ns r1 r2 where
    d: "draw_words r (the (wordlist self)) (nat (the (amount_w self))) = Inr (ws, r1)" and
    n: "draw_numbers r1 (randnum_min self) (randnum_max self) (nat (the (amount_n self)))
          = Inr (ns, r2)" and
    r: "res = map EStr (handle_uppercase ws (PInt u)) @ map EInt ns"
    by blast
  from draw_words_shape [OF d] have
    len: "length ws = nat (the (amount_w self))" and low: "\<forall>w\<in>set ws. str_lower w = w"
    by simp_all
  from low have up0: "uppercase_count ws = 0" by (rule lowered_words_uppercase_count)
  note h = handle_uppercase_pos [OF assms(2), of ws]
  have "map str_lower (handle_uppercase ws (PInt u)) = ws \<and>
        (if lowercase_count ws \<le> u then handle_uppercase ws (PInt u) = map str_upper ws
         else uppercase_count (handle_uppercase ws (PInt u)) = u \<and>
              lowercase_count (handle_uppercase ws (PInt u)) = lowercase_count ws - u)"
  proof (cases "lowercase_count ws \<le> u")
    case True
    with h lowered_words_upper_lower [OF low] show ?thesis by (simp del: map_map)
  next
    case False
    with assms(2) have k: "0 \<le> u" "u \<le> lowercase_count ws" by simp_all
    from make_chars_uppercase_effect [OF k] h False low up0 show ?thesis
      by (simp add: lowered_words_lower)
  qed
  with d n len low up0 r show ?thesis by blast
qed

theorem generate_positive_directive_witness:
  "fst (generate sample_rng (PInt 2) sample_state)
     = Inr [EStr ''ALpha'', EStr ''bravo'', EStr ''charlie'', EStr ''alpha'', EStr ''bravo'']
   \<and> (0 :: int) < 2
   \<and> (\<exists>ws ns r1 r2.
         draw_words sample_rng (the (wordlist sample_state)) (nat (the (amount_w sample_state)))
           = Inr (ws, r1) \<and>
         draw_numbers r1 (randnum_min sample_state) (randnum_max sample_state)
             (nat (the (amount_n sample_state))) = Inr (ns, r2) \<and>
         length ws = nat (the (amount_w sample_state)) \<and> (\<forall>w\<in>set ws. str_lower w = w) \<and>
         uppercase_count ws = 0 \<and>
         [EStr ''ALpha'', EStr ''bravo'', EStr ''charlie'', EStr ''alpha'', EStr ''bravo'']
           = map EStr (handle_uppercase ws (PInt 2)) @ map EInt ns \<and>
         map str_lower (handle_uppercase ws (PInt 2)) = ws \<and>
         (if lowercase_count ws \<le> 2 then handle_uppercase ws (PInt 2) = map str_upper ws
          else uppercase_count (handle_uppercase ws (PInt 2)) = 2 \<and>
               lowercase_count (handle_uppercase ws (PInt 2)) = lowercase_count ws - 2))"
proof -
  have h: "fst (generate sample_rng (PInt 2) sample_state)
     = Inr [EStr ''ALpha'', EStr ''bravo'', EStr ''charlie'', EStr ''alpha'', EStr ''bravo'']"
    by code_simp
  have n: "(0 :: int) < 2" by simp
  from h n generate_positive_directive [OF h n] show ?thesis by blast
qed

text \<open>
  Five words of 27 letters: with the directive 5 (the number of words) 5 letters are
  uppercased and 22 stay lowercase, so not every word is uppercased; with the directive
  2 only 2 letters are uppercased, fewer than any two of the words have. (Which letters
  is the choice of \<open>make_chars_uppercase\<close>; the counts do not depend on it.)
\<close>

theorem generate_positive_directive_counterexample:
  "fst (generate sample_rng (PInt 5) sample_state)
     = Inr [EStr ''ALPHA'', EStr ''bravo'', EStr ''charlie'', EStr ''alpha'', EStr ''bravo'']
   \<and> uppercase_count [''ALPHA'', ''bravo'', ''charlie'', ''alpha'', ''bravo''] = 5
   \<and> lowercase_count [''ALPHA'', ''bravo'', ''charlie'', ''alpha'', ''bravo''] = 22
   \<and> fst (generate sample_rng (PInt 2) sample_state)
     = Inr [EStr ''ALpha'', EStr ''bravo'', EStr ''charlie'', EStr ''alpha'', EStr ''bravo'']
   \<and> uppercase_count [''ALpha'', ''bravo'', ''charlie'', ''alpha'', ''bravo''] = 2
   \<and> lowercase_count [''ALpha'', ''bravo'', ''charlie'', ''alpha'', ''bravo''] = 25"
proof -
  have a: "fst (generate sample_rng (PInt 5) sample_state)
     = Inr [EStr ''ALPHA'', EStr ''bravo'', EStr ''charlie'', EStr ''alpha'', EStr ''bravo'']"
    by code_simp
  have b: "uppercase_count [''ALPHA'', ''bravo'', ''charlie'', ''alpha'', ''bravo''] = 5"
    by code_simp
  have c: "lowercase_count [''ALPHA'', ''bravo'', ''charlie'', ''alpha'', ''bravo''] = 22"
    by code_simp
  have d: "fst (generate sample_rng (PInt 2) sample_state)
     = Inr [EStr ''ALpha'', EStr ''bravo'', EStr ''charlie'', EStr ''alpha'', EStr ''bravo'']"
    by code_simp
  have e: "uppercase_count [''ALpha'', ''bravo'', ''charlie'', ''alpha'', ''bravo''] = 2"
    by code_simp
  have f: "lowercase_count [''ALpha'', ''bravo'', ''charlie'', ''alpha'', ''bravo''] = 25"
    by code_simp
  from a b c d e f show ?thesis by blast
qed

section \<open>\<open>generate_uuid4\<close>\<close>

lemma randhex_exact:
  "randhex r k = (map (\<lambda>i. digit_char (r i mod 16)) [0..<k], (\<lambda>i. r (i + k)))"
proof (induction k arbitrary: r)
  case 0
  show ?case by simp
next
  case (Suc k)
  have "map (\<lambda>i. digit_char (r i mod 16)) [0..<Suc k]
          = digit_char (r 0 mod 16) # map (\<lambda>i. digit_char (r (Suc i) mod 16)) [0..<k]"
    by (simp only: map_upt_Suc)
  with Suc [of "rest r"] show ?case
    by (simp add: rest_def)
qed

lemma hex_digit: "digit_char (m mod 16) \<in> set ''0123456789abcdef''"
proof -
  have "m mod 16 < length ''0123456789abcdef''" by simp
  then have "''0123456789abcdef'' ! (m mod 16) \<in> set ''0123456789abcdef''"
    by (rule nth_mem)
  then show ?thesis by (simp only: digit_char_def)
qed

lemma randhex_hex:
  "length (fst (randhex r k)) = k \<and> set (fst (randhex r k)) \<subseteq> set ''0123456789abcdef''"
  using hex_digit by (auto simp: randhex_exact simp del: list.set)

lemma randbetween_8_11:
  "\<exists>v r1. randbetween r 8 11 = Inr (v, r1) \<and> 8 \<le> v \<and> v \<le> 11"
proof -
  have "r 0 mod 4 < 4" by simp
  then show ?thesis by (auto simp: randbetween_def)
qed

lemma format_x_variant:
  assumes "8 \<le> v" and "v \<le> 11"
  shows "length (format_x v) = 1 \<and> hd (format_x v) \<in> set ''89ab''"
proof -
  from assms have "v = 8 \<or> v = 9 \<or> v = 10 \<or> v = 11" by arith
  then show ?thesis
    by (auto simp: format_x_def digit_char_def)
qed

text \<open>
  Whatever hex string of at least 18 characters \<open>randhex(30)\<close> returns, the five parts
  hold two characters more than it: the last part is \<open>hexstr[18:]\<close>, everything from
  position 18 on.
\<close>

lemma uuid4_parts_shape:
  assumes "18 \<le> length hexstr" and "8 \<le> v" and "v \<le> 11"
  shows "length (uuid4_parts hexstr v) = 5 \<and>
         hd (uuid4_parts hexstr v ! 2) = CHR ''4'' \<and>
         hd (uuid4_parts hexstr v ! 3) \<in> set ''89ab'' \<and>
         map length (uuid4_parts hexstr v) = [8, 4, 4, 4, length hexstr - 18] \<and>
         length (concat (uuid4_parts hexstr v)) = length hexstr + 2"
proof -
  from format_x_variant [OF assms(2,3)] obtain c where c: "format_x v = [c]" "c \<in> set ''89ab''"
    by (cases "format_x v") auto
  with assms(1) show ?thesis
    by (simp add: uuid4_parts_def)
qed

lemma uuid4_parts_subset:
  assumes "set hexstr \<subseteq> H" and "CHR ''4'' \<in> H" and "set (format_x v) \<subseteq> H"
  shows "set (concat (uuid4_parts hexstr v)) \<subseteq> H"
  using assms by (auto simp: uuid4_parts_def dest: in_set_takeD in_set_dropD)

lemma uuid4_parts_hex:
  assumes "set hexstr \<subseteq> set ''0123456789abcdef''" and "8 \<le> v" and "v \<le> 11"
  shows "set (concat (uuid4_parts hexstr v)) \<subseteq> set ''0123456789abcdef''"
proof -
  from format_x_variant [OF assms(2,3)] obtain c where c: "format_x v = [c]" "c \<in> set ''89ab''"
    by (cases "format_x v") auto
  then have f: "set (format_x v) \<subseteq> set ''0123456789abcdef''" by auto
  have four: "CHR ''4'' \<in> set ''0123456789abcdef''" by simp
  from assms(1) four f show ?thesis by (rule uuid4_parts_subset)
qed

text \<open>
  Claim C3. \<open>generate_uuid4\<close> always succeeds, stores and returns five parts of 8, 4,
  4, 4 and 12 characters, 32 together, all of them lowercase hex digits; the third part
  starts with \<open>4\<close> and the fourth with one of \<open>8\<close>, \<open>9\<close>, \<open>a\<close>, \<open>b\<close>. Here \<open>randhex(30)\<close>
  is a string of 30 random hex digits and \<open>randbetween(8, 11)\<close> an integer of \<open>[8, 11]\<close>.
\<close>

theorem generate_uuid4_shape:
  "\<exists>v r2. randbetween (snd (randhex r 30)) 8 11 = Inr (v, r2) \<and> 8 \<le> v \<and> v \<le> 11 \<and>
     fst (generate_uuid4 r self) = Inr (map EStr (uuid4_parts (fst (randhex r 30)) v)) \<and>
     snd (generate_uuid4 r self)
       = self\<lparr>last_result := Some (map EStr (uuid4_parts (fst (randhex r 30)) v))\<rparr> \<and>
     map length (uuid4_parts (fst (randhex r 30)) v) = [8, 4, 4, 4, 12] \<and>
     length (concat (uuid4_parts (fst (randhex r 30)) v)) = 32 \<and>
     set (concat (uuid4_parts (fst (randhex r 30)) v)) \<subseteq> set ''0123456789abcdef'' \<and>
     hd (uuid4_parts (fst (randhex r 30)) v ! 2) = CHR ''4'' \<and>
     hd (uuid4_parts (fst (randhex r 30)) v ! 3) \<in> set ''89ab''"
proof -
  obtain hexstr r1 where h: "randhex r 30 = (hexstr, r1)" by (cases "randhex r 30")
  from randbetween_8_11 [of r1] obtain v r2 where
    v: "randbetween r1 8 11 = Inr (v, r2)" "8 \<le> v" "v \<le> 11" by blast
  from randhex_hex [of r 30] h have l: "length hexstr = 30"
    and x: "set hexstr \<subseteq> set ''0123456789abcdef''" by simp_all
  from l have "18 \<le> length hexstr" by simp
  from uuid4_parts_shape [OF this v(2,3)] l have
    s: "map length (uuid4_parts hexstr v) = [8, 4, 4, 4, 12]"
       "length (concat (uuid4_parts hexstr v)) = 32"
       "hd (uuid4_parts hexstr v ! 2) = CHR ''4''"
       "hd (uuid4_parts hexstr v ! 3) \<in> set ''89ab''"
    by simp_all
  note y = uuid4_parts_hex [OF x v(2,3)]
  have g: "generate_uuid4 r self
             = (Inr (map EStr (uuid4_parts hexstr v)),
                self\<lparr>last_result := Some (map EStr (uuid4_parts hexstr v))\<rparr>)"
    using h v(1) by (simp add: generate_uuid4_def Let_def)
  from g h v s y show ?thesis
    by (intro exI [of _ v] exI [of _ r2]) (simp del: list.set)
qed

theorem generate_uuid4_shape_witness:
  "fst (generate_uuid4 sample_rng sample_state)
     = Inr [EStr ''01234567'', EStr ''89ab'', EStr ''4cde'', EStr ''af01'', EStr ''23456789abcd'']
   \<and> (\<exists>v r2. randbetween (snd (randhex sample_rng 30)) 8 11 = Inr (v, r2) \<and>
         fst (generate_uuid4 sample_rng sample_state)
           = Inr (map EStr (uuid4_parts (fst (randhex sample_rng 30)) v)) \<and>
         length (concat (uuid4_parts (fst (randhex sample_rng 30)) v)) = 32)"
proof -
  have "fst (generate_uuid4 sample_rng sample_state)
     = Inr [EStr ''01234567'', EStr ''89ab'', EStr ''4cde'', EStr ''af01'', EStr ''23456789abcd'']"
    by code_simp
  with generate_uuid4_shape [of sample_rng sample_state] show ?thesis by blast
qed

section \<open>The setters\<close>

text \<open>
  Claim C4, as the code has it. Each of \<open>entropy_bits_req\<close>, \<open>randnum_min\<close>,
  \<open>randnum_max\<close>, \<open>amount_w\<close>, \<open>amount_n\<close>, \<open>passwordlen\<close>, \<open>separator\<close> and
  \<open>wordlist\<close> checks the assigned value: a value of the wrong type ends in \<open>TypeError\<close>,
  a negative value for a numeric field ends in \<open>ValueError\<close>, and the object is then as
  it was before. The four \<open>password_use_*\<close> setters check nothing: they store the truth
  value \<open>bool(x)\<close> of whatever is assigned and never fail.
\<close>

theorem setters_validate:
  "(\<not> isinstance_int_float v \<longrightarrow> entropy_bits_req_setter v s = (Inl TypeError, s)) \<and>
   (isinstance_int_float v \<and> real_of v < 0 \<longrightarrow>
      entropy_bits_req_setter v s = (Inl ValueError, s)) \<and>
   (\<not> isinstance_int v \<longrightarrow>
      randnum_min_setter v s = (Inl TypeError, s) \<and>
      randnum_max_setter v s = (Inl TypeError, s) \<and>
      amount_w_setter v s = (Inl TypeError, s) \<and>
      amount_n_setter v s = (Inl TypeError, s) \<and>
      passwordlen_setter v s = (Inl TypeError, s)) \<and>
   (isinstance_int v \<and> int_of v < 0 \<longrightarrow>
      randnum_min_setter v s = (Inl ValueError, s) \<and>
      randnum_max_setter v s = (Inl ValueError, s) \<and>
      amount_w_setter v s = (Inl ValueError, s) \<and>
      amount_n_setter v s = (Inl ValueError, s) \<and>
      passwordlen_setter v s = (Inl ValueError, s)) \<and>
   (\<not> isinstance_str v \<longrightarrow> separator_setter v s = (Inl TypeError, s)) \<and>
   (\<not> isinstance_list_tuple v \<longrightarrow> wordlist_setter v s = (Inl TypeError, s)) \<and>
   password_use_lowercase_setter v s = (Inr (), s\<lparr>password_use_lowercase := py_bool v\<rparr>) \<and>
   password_use_uppercase_setter v s = (Inr (), s\<lparr>password_use_uppercase := py_bool v\<rparr>) \<and>
   password_use_digits_setter v s = (Inr (), s\<lparr>password_use_digits := py_bool v\<rparr>) \<and>
   password_use_punctuation_setter v s = (Inr (), s\<lparr>password_use_punctuation := py_bool v\<rparr>)"
  by (cases v)
     (simp_all add: entropy_bits_req_setter_def randnum_min_setter_def randnum_max_setter_def
      amount_w_setter_def amount_n_setter_def passwordlen_setter_def separator_setter_def
      wordlist_setter_def password_use_lowercase_setter_def password_use_uppercase_setter_def
      password_use_digits_setter_def password_use_punctuation_setter_def
      isinstance_int_def isinstance_int_float_def isinstance_str_def isinstance_list_tuple_def)

theorem setters_validate_witness:
  "entropy_bits_req_setter (PStr ''80'') sample_state = (Inl TypeError, sample_state) \<and>
   entropy_bits_req_setter (PFloat (- 1)) sample_state = (Inl ValueError, sample_state) \<and>
   randnum_min_setter (PFloat 1) sample_state = (Inl TypeError, sample_state) \<and>
   randnum_max_setter (PInt (- 1)) sample_state = (Inl ValueError, sample_state) \<and>
   amount_w_setter (PStr ''5'') sample_state = (Inl TypeError, sample_state) \<and>
   amount_w_setter (PInt (- 1)) sample_state = (Inl ValueError, sample_state) \<and>
   amount_n_setter PNone sample_state = (Inl TypeError, sample_state) \<and>
   passwordlen_setter (PInt (- 1)) sample_state = (Inl ValueError, sample_state) \<and>
   separator_setter (PInt (- 1)) sample_state = (Inl TypeError, sample_state) \<and>
   wordlist_setter (PStr ''5'') sample_state = (Inl TypeError, sample_state) \<and>
   password_use_digits_setter (PStr ''5'') sample_state
     = (Inr (), sample_state\<lparr>password_use_digits := True\<rparr>)"
  using setters_validate [of "PStr ''80''" sample_state]
    setters_validate [of "PFloat (- 1)" sample_state]
    setters_validate [of "PFloat 1" sample_state]
    setters_validate [of "PInt (- 1)" sample_state]
    setters_validate [of "PStr ''5''" sample_state]
    setters_validate [of PNone sample_state]
  by (simp add: isinstance_int_def isinstance_int_float_def isinstance_str_def
      isinstance_list_tuple_def int_of_def real_of_def py_bool_def)

text \<open>
  Assigning \<open>None\<close> to \<open>password_use_digits\<close> raises nothing and switches the digits off.
\<close>

theorem flag_setter_counterexample:
  "password_use_digits_setter PNone (init_fields sample_env)
     = (Inr (), (init_fields sample_env)\<lparr>password_use_digits := False\<rparr>)
   \<and> password_use_digits (init_fields sample_env)
   \<and> \<not> password_use_digits (snd (password_use_digits_setter PNone (init_fields sample_env)))"
  by (simp add: password_use_digits_setter_def py_bool_def init_fields_def)

section \<open>\<open>entropy_bits\<close>\<close>

text \<open>
  Claim C5. \<open>entropy_bits\<close> dispatches by shape. For a list or tuple of length 2 whose
  two elements are numbers in the sense of the code's test (\<open>int\<close> or \<open>float\<close>, so
  \<open>bool\<close> too, but not \<open>complex\<close> or \<open>str\<close>) the result is that of the range entropy
  of \<open>[lst[0], lst[1]]\<close>, which is \<open>log2(max - min + 1)\<close> when \<open>min \<le> max\<close>. For every
  other list or tuple the result is that of the symbol-set entropy, which is \<open>log2\<close> of
  the length when the sequence is not empty. Anything else ends in \<open>TypeError\<close>.
\<close>

theorem entropy_bits_dispatch:
  "(isinstance_list_tuple lst \<and> length (items_of lst) = 2
      \<and> isinstance_int_float (items_of lst ! 0) \<and> isinstance_int_float (items_of lst ! 1) \<longrightarrow>
      entropy_bits lst
        = calc_entropy_bits_nrange (real_of (items_of lst ! 0)) (real_of (items_of lst ! 1)) \<and>
      (real_of (items_of lst ! 0) \<le> real_of (items_of lst ! 1) \<longrightarrow>
         entropy_bits lst
           = Inr (log 2 (real_of (items_of lst ! 1) - real_of (items_of lst ! 0) + 1)))) \<and>
   (isinstance_list_tuple lst
      \<and> \<not> (length (items_of lst) = 2
            \<and> isinstance_int_float (items_of lst ! 0) \<and> isinstance_int_float (items_of lst ! 1)) \<longrightarrow>
      entropy_bits lst = calc_entropy_bits (items_of lst) \<and>
      (items_of lst \<noteq> [] \<longrightarrow> entropy_bits lst = Inr (log 2 (real (length (items_of lst)))))) \<and>
   (\<not> isinstance_list_tuple lst \<longrightarrow> entropy_bits lst = Inl TypeError)"
  by (auto simp: entropy_bits_def Let_def calc_entropy_bits_nrange_def calc_entropy_bits_def)

theorem entropy_bits_dispatch_witness:
  "entropy_bits (PTuple [PInt 1, PInt 8]) = Inr (log 2 8) \<and>
   entropy_bits (PList [PInt 3, PFloat 4]) = Inr (log 2 2) \<and>
   entropy_bits (PList [PStr ''a'', PStr ''b'', PStr ''c'']) = Inr (log 2 3) \<and>
   entropy_bits (PList [PInt 1, PStr ''b'']) = Inr (log 2 2) \<and>
   entropy_bits (PList [PComplex 0 1, PComplex 0 2]) = Inr (log 2 2) \<and>
   entropy_bits (PStr ''ab'') = Inl TypeError \<and>
   entropy_bits (PInt 5) = Inl TypeError"
  using entropy_bits_dispatch [of "PTuple [PInt 1, PInt 8]"]
    entropy_bits_dispatch [of "PList [PInt 3, PFloat 4]"]
    entropy_bits_dispatch [of "PList [PStr ''a'', PStr ''b'', PStr ''c'']"]
    entropy_bits_dispatch [of "PList [PInt 1, PStr ''b'']"]
    entropy_bits_dispatch [of "PList [PComplex 0 1, PComplex 0 2]"]
    entropy_bits_dispatch [of "PStr ''ab''"]
    entropy_bits_dispatch [of "PInt 5"]
  by (simp add: isinstance_int_float_def isinstance_list_tuple_def items_of_def real_of_def
      calc_entropy_bits_nrange_def calc_entropy_bits_def)

section \<open>\<open>__str__\<close>\<close>

lemma concat_with_separator:
  "xs \<noteq> [] \<Longrightarrow> concat (map (\<lambda>w. w @ sep) xs) = spec_join sep xs @ sep"
  by (induction sep xs rule: spec_join.induct) simp_all

lemma spec_join_empty_separator: "spec_join [] xs = concat xs"
  by (induction "[] :: string" xs rule: spec_join.induct) simp_all

text \<open>
  Claim C9. In every state the rendered string is the elements of \<open>last_result\<close>, each
  as \<open>str\<close> gives it, joined by the separator with no trailing separator, and it is
  empty when \<open>last_result\<close> is unset or empty. The separator may be any string, empty
  or of several characters.
\<close>

theorem to_str_is_join:
  "to_str self =
     (case last_result self of
        None \<Rightarrow> []
      | Some res \<Rightarrow> spec_join (separator self) (map py_str res))"
proof (cases "last_result self")
  case None
  then show ?thesis by (simp add: to_str_def)
next
  case (Some res)
  show ?thesis
  proof (cases "res = []")
    case True
    with Some show ?thesis by (simp add: to_str_def)
  next
    case False
    then have ne: "map py_str res \<noteq> []" by simp
    have "concat (map (\<lambda>w. py_str w @ separator self) res)
            = concat (map (\<lambda>w. w @ separator self) (map py_str res))"
      by (simp add: comp_def)
    also have "\<dots> = spec_join (separator self) (map py_str res) @ separator self"
      by (rule concat_with_separator [OF ne])
    finally have c: "concat (map (\<lambda>w. py_str w @ separator self) res)
            = spec_join (separator self) (map py_str res) @ separator self" .
    from Some False show ?thesis
      by (simp add: to_str_def Let_def slice_to_def c)
  qed
qed

theorem to_str_is_join_witness:
  "to_str (sample_state\<lparr>last_result := Some [EStr ''ab'', EStr ''cd'', EInt 42],
                        separator := ''--''\<rparr>) = ''ab--cd--42''
   \<and> to_str (sample_state\<lparr>last_result := Some [EStr ''ab'', EStr ''cd'', EInt 42],
                        separator := ''''\<rparr>) = ''abcd42''
   \<and> to_str (sample_state\<lparr>last_result := Some []\<rparr>) = ''''
   \<and> to_str (sample_state\<lparr>last_result := None\<rparr>) = ''''"
  using to_str_is_join [of "sample_state\<lparr>last_result := Some [EStr ''ab'', EStr ''cd'', EInt 42],
                        separator := ''--''\<rparr>"]
    to_str_is_join [of "sample_state\<lparr>last_result := Some [EStr ''ab'', EStr ''cd'', EInt 42],
                        separator := ''''\<rparr>"]
    to_str_is_join [of "sample_state\<lparr>last_result := Some []\<rparr>"]
    to_str_is_join [of "sample_state\<lparr>last_result := None\<rparr>"]
  by (simp add: str_int_def digit_char_def)

section \<open>The wordlist and its cached entropy\<close>

text \<open>
  Claim C8. After an accepted assignment to \<open>wordlist\<close> the cached entropy per word is
  unset, and so it is after every \<open>import_words_from_file\<close> call that got past the
  file check (every call that returns, in particular); the next entropy query then
  computes the entropy from the wordlist. After \<open>load_internal_wordlist\<close> the cache is
  the built-in constant and the wordlist is the built-in list.
\<close>

theorem wordlist_cache:
  "(fst (wordlist_setter words s) = Inr () \<longrightarrow>
      wordlist_entropy_bits (snd (wordlist_setter words s)) = None \<and>
      wordlist (snd (wordlist_setter words s)) = Some (items_of words) \<and>
      entropy_w_of (snd (wordlist_setter words s)) = entropy_bits (PList (items_of words))) \<and>
   (fst (import_words_from_file e inputfile is_diceware s) \<noteq> Inl FileNotFoundError \<longrightarrow>
      wordlist_entropy_bits (snd (import_words_from_file e inputfile is_diceware s)) = None \<and>
      entropy_w_of (snd (import_words_from_file e inputfile is_diceware s))
        = entropy_bits
            (PList (case wordlist (snd (import_words_from_file e inputfile is_diceware s)) of
                      None \<Rightarrow> [] | Some wl \<Rightarrow> wl))) \<and>
   fst (load_internal_wordlist e s) = Inr () \<and>
   wordlist_entropy_bits (snd (load_internal_wordlist e s)) = Some (EFF_LONG_WORDLIST_ENTROPY e) \<and>
   wordlist (snd (load_internal_wordlist e s)) = Some (EFF_LONG_WORDLIST e)"
  by (auto simp: wordlist_setter_def import_words_from_file_def load_internal_wordlist_def
      entropy_w_of_def Let_def split: if_splits sum.splits)

theorem wordlist_cache_witness:
  "wordlist_entropy_bits (snd (load_internal_wordlist sample_env sample_state)) = Some 2 \<and>
   wordlist (snd (load_internal_wordlist sample_env sample_state))
     = Some [PStr ''abacus'', PStr ''abdomen'', PStr ''abdominal'', PStr ''abide''] \<and>
   fst (wordlist_setter (PTuple [PStr ''a'', PStr ''b''])
          (snd (load_internal_wordlist sample_env sample_state))) = Inr () \<and>
   wordlist_entropy_bits
     (snd (wordlist_setter (PTuple [PStr ''a'', PStr ''b''])
             (snd (load_internal_wordlist sample_env sample_state)))) = None \<and>
   fst (import_words_from_file sample_env ''dice.txt'' True
          (snd (load_internal_wordlist sample_env sample_state))) = Inr () \<and>
   wordlist_entropy_bits
     (snd (import_words_from_file sample_env ''dice.txt'' True
             (snd (load_internal_wordlist sample_env sample_state)))) = None"
  using wordlist_cache [of "PTuple [PStr ''a'', PStr ''b'']"
      "snd (load_internal_wordlist sample_env sample_state)" sample_env "''dice.txt''" True]
  by (simp add: wordlist_setter_def isinstance_list_tuple_def import_words_from_file_def
      isfile_notempty_def sample_env_def split_def is_space_def load_internal_wordlist_def)

section \<open>Construction\<close>

text \<open>
  The loop of \<open>generate_password\<close> reads one number of the random source for each
  character and takes the character at that index, modulo the size of the set.
\<close>

lemma draw_chars_exact:
  "characterset \<noteq> [] \<Longrightarrow>
   draw_chars r characterset k
     = Inr (map (\<lambda>i. characterset ! (r i mod length characterset)) [0..<k], (\<lambda>i. r (i + k)))"
proof (induction k arbitrary: r)
  case 0
  show ?case by simp
next
  case (Suc k)
  have "map (\<lambda>i. characterset ! (r i mod length characterset)) [0..<Suc k]
          = characterset ! (r 0 mod length characterset)
              # map (\<lambda>i. characterset ! (r (Suc i) mod length characterset)) [0..<k]"
    by (simp only: map_upt_Suc)
  with Suc.IH [OF Suc.prems, of "rest r"] Suc.prems show ?case
    by (simp add: rest_def randchoice_def)
qed

lemma generate_password_exact:
  assumes "passwordlen self = Some m" and "get_password_characters self = cs" and "cs \<noteq> []"
  shows "generate_password t self
           = (Inr (map (\<lambda>i. EStr [cs ! (t i mod length cs)]) [0..<nat m]),
              self\<lparr>last_result := Some (map (\<lambda>i. EStr [cs ! (t i mod length cs)]) [0..<nat m])\<rparr>)"
  using draw_chars_exact [OF assms(3), of t "nat m"] assms
  by (simp add: generate_password_def Let_def comp_def)

lemma all_characters:
  "ascii_lowercase @ ascii_uppercase @ digits @ punctuation =
   ''abcdefghijklmnopqrstuvwxyzABCDEFGHIJKLMNOPQRSTUVWXYZ0123456789''
     @ [CHR ''!'', CHR 0x22, CHR ''#'', CHR ''$'', CHR ''%'', CHR ''&'', CHR 0x27,
        CHR ''('', CHR '')'', CHR ''*'', CHR ''+'', CHR '','', CHR ''-'', CHR ''.'', CHR ''/'',
        CHR '':'', CHR '';'', CHR ''<'', CHR ''='', CHR ''>'', CHR ''?'', CHR ''@'',
        CHR ''['', CHR 0x5C, CHR '']'', CHR ''^'', CHR ''_'', CHR 0x60,
        CHR ''{'', CHR ''|'', CHR ''}'', CHR ''~'']"
  by code_simp

lemma all_characters_94:
  "length (ascii_lowercase @ ascii_uppercase @ digits @ punctuation) = 94 \<and>
   distinct (ascii_lowercase @ ascii_uppercase @ digits @ punctuation)"
  unfolding all_characters by simp

text \<open>
  Claim C10. An object constructed without an input file has the four character classes
  switched on, a single space as separator, \<open>MIN_NUM\<close> and \<open>MAX_NUM\<close> as number bounds,
  and \<open>passwordlen\<close>, \<open>amount_w\<close>, \<open>amount_n\<close>, \<open>entropy_bits_req\<close>, \<open>wordlist\<close> and
  \<open>last_result\<close> unset. Its character set is the 94 distinct characters of the four
  classes. Once \<open>passwordlen\<close> is set to \<open>n\<close>, \<open>generate_password\<close> returns \<open>n\<close> characters,
  the \<open>i\<close>-th being the character of that set at the index the random source gives for
  it, modulo 94; each of the 94 characters is returned for some random source.
\<close>

theorem default_construction:
  "init e None is_diceware = (Inr (), init_fields e) \<and>
   password_use_lowercase (init_fields e) \<and> password_use_uppercase (init_fields e) \<and>
   password_use_digits (init_fields e) \<and> password_use_punctuation (init_fields e) \<and>
   separator (init_fields e) = '' '' \<and>
   randnum_min (init_fields e) = MIN_NUM e \<and> randnum_max (init_fields e) = MAX_NUM e \<and>
   passwordlen (init_fields e) = None \<and> amount_w (init_fields e) = None \<and>
   amount_n (init_fields e) = None \<and> entropy_bits_req (init_fields e) = None \<and>
   wordlist (init_fields e) = None \<and> wordlist_entropy_bits (init_fields e) = None \<and>
   last_result (init_fields e) = None \<and>
   get_password_characters (init_fields e)
     = ascii_lowercase @ ascii_uppercase @ digits @ punctuation \<and>
   length (get_password_characters (init_fields e)) = 94 \<and>
   distinct (get_password_characters (init_fields e)) \<and>
   (0 \<le> n \<longrightarrow>
      passwordlen_setter (PInt n) (init_fields e)
        = (Inr (), (init_fields e)\<lparr>passwordlen := Some n\<rparr>) \<and>
      generate_password r ((init_fields e)\<lparr>passwordlen := Some n\<rparr>)
        = (Inr (map (\<lambda>i. EStr [(ascii_lowercase @ ascii_uppercase @ digits @ punctuation)
                                    ! (r i mod 94)]) [0..<nat n]),
           (init_fields e)
             \<lparr>passwordlen := Some n,
              last_result :=
                Some (map (\<lambda>i. EStr [(ascii_lowercase @ ascii_uppercase @ digits @ punctuation)
                                        ! (r i mod 94)]) [0..<nat n])\<rparr>)) \<and>
   (\<forall>c \<in> set (ascii_lowercase @ ascii_uppercase @ digits @ punctuation).
      \<exists>r'. fst (generate_password r' ((init_fields e)\<lparr>passwordlen := Some 1\<rparr>))
             = Inr [EStr [c]])"
proof -
  let ?cs = "ascii_lowercase @ ascii_uppercase @ digits @ punctuation"
  have g: "get_password_characters (init_fields e) = ?cs"
    by (simp add: get_password_characters_def init_fields_def)
  have g': "get_password_characters ((init_fields e)\<lparr>passwordlen := Some m\<rparr>) = ?cs" for m
    by (simp add: get_password_characters_def init_fields_def)
  have p: "passwordlen ((init_fields e)\<lparr>passwordlen := Some m\<rparr>) = Some m" for m
    by simp
  have ne: "?cs \<noteq> []"
    by (simp add: ascii_lowercase_def)
  have len: "length ?cs = 94" using all_characters_94 by blast
  have dis: "distinct ?cs" using all_characters_94 by blast
  note gp = generate_password_exact [OF p g' ne, unfolded len]
  have f: "init e None is_diceware = (Inr (), init_fields e)"
    by (simp add: init_def)
  have fields: "password_use_lowercase (init_fields e) \<and> password_use_uppercase (init_fields e) \<and>
   password_use_digits (init_fields e) \<and> password_use_punctuation (init_fields e) \<and>
   separator (init_fields e) = '' '' \<and>
   randnum_min (init_fields e) = MIN_NUM e \<and> randnum_max (init_fields e) = MAX_NUM e \<and>
   passwordlen (init_fields e) = None \<and> amount_w (init_fields e) = None \<and>
   amount_n (init_fields e) = None \<and> entropy_bits_req (init_fields e) = None \<and>
   wordlist (init_fields e) = None \<and> wordlist_entropy_bits (init_fields e) = None \<and>
   last_result (init_fields e) = None"
    by (simp add: init_fields_def)
  have st: "0 \<le> n \<longrightarrow> passwordlen_setter (PInt n) (init_fields e)
        = (Inr (), (init_fields e)\<lparr>passwordlen := Some n\<rparr>)"
    by (simp add: passwordlen_setter_def isinstance_int_def int_of_def)
  have every: "\<forall>c \<in> set ?cs.
      \<exists>r'. fst (generate_password r' ((init_fields e)\<lparr>passwordlen := Some 1\<rparr>)) = Inr [EStr [c]]"
  proof
    fix c assume "c \<in> set ?cs"
    then obtain i where i: "i < length ?cs" "?cs ! i = c"
      by (auto simp only: in_set_conv_nth)
    from i(1) have "i mod 94 = i" by (simp only: len) simp
    with i(2) have "fst (generate_password (\<lambda>_. i) ((init_fields e)\<lparr>passwordlen := Some 1\<rparr>))
            = Inr [EStr [c]]"
      by (simp only: gp) simp
    then show "\<exists>r'. fst (generate_password r' ((init_fields e)\<lparr>passwordlen := Some 1\<rparr>))
            = Inr [EStr [c]]" by blast
  qed
  have l: "length (get_password_characters (init_fields e)) = 94" by (simp only: g len)
  have d: "distinct (get_password_characters (init_fields e))" by (simp only: g dis)
  from st gp [where t = r and m = n] have last: "0 \<le> n \<longrightarrow>
      passwordlen_setter (PInt n) (init_fields e)
        = (Inr (), (init_fields e)\<lparr>passwordlen := Some n\<rparr>) \<and>
      generate_password r ((init_fields e)\<lparr>passwordlen := Some n\<rparr>)
        = (Inr (map (\<lambda>i. EStr [?cs ! (r i mod 94)]) [0..<nat n]),
           (init_fields e)
             \<lparr>passwordlen := Some n,
              last_result := Some (map (\<lambda>i. EStr [?cs ! (r i mod 94)]) [0..<nat n])\<rparr>)"
    by (simp only:) simp
  show ?thesis
    by (intro conjI) (rule f fields [THEN conjunct1] g l d last every | insert fields, blast)+
qed

theorem default_construction_witness:
  "(0 :: int) \<le> 3 \<and>
   passwordlen_setter (PInt 3) (init_fields sample_env)
     = (Inr (), (init_fields sample_env)\<lparr>passwordlen := Some 3\<rparr>) \<and>
   length (get_password_characters (init_fields sample_env)) = 94 \<and>
   fst (generate_password sample_rng ((init_fields sample_env)\<lparr>passwordlen := Some 3\<rparr>))
     = Inr [EStr ''a'', EStr ''b'', EStr ''c''] \<and>
   fst (generate_password (sample_rng_from 52) ((init_fields sample_env)\<lparr>passwordlen := Some 3\<rparr>))
     = Inr [EStr ''0'', EStr ''1'', EStr ''2''] \<and>
   fst (generate_password (sample_rng_from 93) ((init_fields sample_env)\<lparr>passwordlen := Some 3\<rparr>))
     = Inr [EStr ''~'', EStr ''a'', EStr ''b'']"
proof -
  have h1: "fst (generate_password sample_rng ((init_fields sample_env)\<lparr>passwordlen := Some 3\<rparr>))
     = Inr [EStr ''a'', EStr ''b'', EStr ''c'']"
    by code_simp
  have h2: "fst (generate_password (sample_rng_from 52)
                   ((init_fields sample_env)\<lparr>passwordlen := Some 3\<rparr>))
     = Inr [EStr ''0'', EStr ''1'', EStr ''2'']"
    by code_simp
  have h3: "fst (generate_password (sample_rng_from 93)
                   ((init_fields sample_env)\<lparr>passwordlen := Some 3\<rparr>))
     = Inr [EStr ''~'', EStr ''a'', EStr ''b'']"
    by code_simp
  have n: "(0 :: int) \<le> 3" by simp
  note t = default_construction [where n = 3 and e = sample_env and r = sample_rng]
  from t n have a: "passwordlen_setter (PInt 3) (init_fields sample_env)
     = (Inr (), (init_fields sample_env)\<lparr>passwordlen := Some 3\<rparr>)"
    by blast
  from t have b: "length (get_password_characters (init_fields sample_env)) = 94"
    by blast
  from n a b h1 h2 h3 show ?thesis by blast
qed

section \<open>What a call can change\<close>

lemma generate_cases:
  "(\<exists>err. generate r up s = (Inl err, s)) \<or>
   (\<exists>res. generate r up s = (Inr res, s\<lparr>last_result := Some res\<rparr>))"
proof (cases "draw_words r (the (wordlist s)) (nat (the (amount_w s)))")
  case (Inl e)
  then show ?thesis by (simp add: generate_def)
next
  case (Inr p)
  obtain ws r1 where p: "p = (ws, r1)" by (cases p)
  show ?thesis
  proof (cases "draw_numbers r1 (randnum_min s) (randnum_max s) (nat (the (amount_n s)))")
    case (Inl e)
    with Inr p show ?thesis by (simp add: generate_def)
  next
    case inr: (Inr q)
    obtain ns r2 where q: "q = (ns, r2)" by (cases q)
    with Inr p inr show ?thesis by (simp add: generate_def Let_def)
  qed
qed

lemma generate_password_cases:
  "(\<exists>err. generate_password r s = (Inl err, s)) \<or>
   (\<exists>res. generate_password r s = (Inr res, s\<lparr>last_result := Some res\<rparr>))"
proof (cases "passwordlen s")
  case None
  then show ?thesis by (simp add: generate_password_def)
next
  case (Some len)
  show ?thesis
  proof (cases "draw_chars r (get_password_characters s) (nat len)")
    case (Inl e)
    with Some show ?thesis by (simp add: generate_password_def Let_def)
  next
    case (Inr p)
    obtain cs r1 where "p = (cs, r1)" by (cases p)
    with Some Inr show ?thesis by (simp add: generate_password_def Let_def)
  qed
qed

lemma generate_uuid4_cases:
  "(\<exists>err. generate_uuid4 r s = (Inl err, s)) \<or>
   (\<exists>res. generate_uuid4 r s = (Inr res, s\<lparr>last_result := Some res\<rparr>))"
proof -
  obtain hexstr r1 where h: "randhex r 30 = (hexstr, r1)" by (cases "randhex r 30")
  show ?thesis
  proof (cases "randbetween r1 8 11")
    case (Inl e)
    with h show ?thesis by (simp add: generate_uuid4_def)
  next
    case (Inr p)
    obtain v r2 where "p = (v, r2)" by (cases p)
    with h Inr show ?thesis by (simp add: generate_uuid4_def Let_def)
  qed
qed

lemma diceware_error: "read_words_from_diceware ls = Inl err \<Longrightarrow> err = IndexError"
  by (induction ls) (auto split: list.splits sum.splits)

lemma import_cases:
  "import_words_from_file e f d s = (Inl FileNotFoundError, s) \<or>
   (d \<and> import_words_from_file e f d s = (Inl IndexError, s\<lparr>wordlist_entropy_bits := None\<rparr>)) \<or>
   (\<exists>ws. import_words_from_file e f d s
           = (Inr (), s\<lparr>wordlist_entropy_bits := None, wordlist := Some ws\<rparr>))"
proof (cases "isfile_notempty e f")
  case False
  then show ?thesis by (simp add: import_words_from_file_def)
next
  case True
  show ?thesis
  proof (cases d)
    case False
    with True have "import_words_from_file e f d s
           = (Inr (), s\<lparr>wordlist_entropy_bits := None,
                wordlist := Some (read_words_from_wordfile
                                    (case files e f of None \<Rightarrow> [] | Some ls \<Rightarrow> ls))\<rparr>)"
      by (simp add: import_words_from_file_def Let_def)
    then show ?thesis by blast
  next
    case d: True
    show ?thesis
    proof (cases "read_words_from_diceware (case files e f of None \<Rightarrow> [] | Some ls \<Rightarrow> ls)")
      case (Inl err)
      from diceware_error [OF this] Inl True d show ?thesis
        by (simp add: import_words_from_file_def Let_def)
    next
      case (Inr ws)
      with True d have "import_words_from_file e f d s
           = (Inr (), s\<lparr>wordlist_entropy_bits := None, wordlist := Some ws\<rparr>)"
        by (simp add: import_words_from_file_def Let_def)
      then show ?thesis by blast
    qed
  qed
qed

lemma generate_failure:
  "fst (generate r up s) = Inl err \<Longrightarrow> snd (generate r up s) = s"
  using generate_cases [of r up s] by auto

lemma generate_password_failure:
  "fst (generate_password r s) = Inl err \<Longrightarrow> snd (generate_password r s) = s"
  using generate_password_cases [of r s] by auto

lemma generate_uuid4_failure:
  "fst (generate_uuid4 r s) = Inl err \<Longrightarrow> snd (generate_uuid4 r s) = s"
  using generate_uuid4_cases [of r s] by auto

text \<open>
  A setter that raises leaves the object as it was (the four flag setters never raise),
  and so does an entropy query, whether it raises or returns.
\<close>

lemma setter_failure_leaves_object:
  "(fst (entropy_bits_req_setter v s) = Inl err \<longrightarrow> snd (entropy_bits_req_setter v s) = s) \<and>
   (fst (randnum_min_setter v s) = Inl err \<longrightarrow> snd (randnum_min_setter v s) = s) \<and>
   (fst (randnum_max_setter v s) = Inl err \<longrightarrow> snd (randnum_max_setter v s) = s) \<and>
   (fst (amount_w_setter v s) = Inl err \<longrightarrow> snd (amount_w_setter v s) = s) \<and>
   (fst (amount_n_setter v s) = Inl err \<longrightarrow> snd (amount_n_setter v s) = s) \<and>
   (fst (passwordlen_setter v s) = Inl err \<longrightarrow> snd (passwordlen_setter v s) = s) \<and>
   (fst (separator_setter v s) = Inl err \<longrightarrow> snd (separator_setter v s) = s) \<and>
   (fst (wordlist_setter v s) = Inl err \<longrightarrow> snd (wordlist_setter v s) = s) \<and>
   fst (password_use_lowercase_setter v s) \<noteq> Inl err \<and>
   fst (password_use_uppercase_setter v s) \<noteq> Inl err \<and>
   fst (password_use_digits_setter v s) \<noteq> Inl err \<and>
   fst (password_use_punctuation_setter v s) \<noteq> Inl err"
  by (simp add: entropy_bits_req_setter_def randnum_min_setter_def randnum_max_setter_def
      amount_w_setter_def amount_n_setter_def passwordlen_setter_def separator_setter_def
      wordlist_setter_def password_use_lowercase_setter_def password_use_uppercase_setter_def
      password_use_digits_setter_def password_use_punctuation_setter_def split: pyval.splits)

lemma query_leaves_object:
  "snd (password_length_needed s) = s \<and> snd (words_amount_needed s) = s \<and>
   snd (generated_password_entropy s) = s \<and> snd (generated_passphrase_entropy s) = s"
  by (simp add: password_length_needed_def words_amount_needed_def
      generated_password_entropy_def generated_passphrase_entropy_def Let_def
      split: option.splits sum.splits)

text \<open>
  \<open>import_words_from_file\<close> can fail in two ways. When the file check fails the object
  is as it was. When a line of a diceware file has fewer than two columns the call ends
  in \<open>IndexError\<close> after the cache has been cleared: every other field is as it was.
\<close>

lemma import_failure:
  assumes "fst (import_words_from_file e f d s) = Inl err"
  shows "(err = FileNotFoundError \<and> snd (import_words_from_file e f d s) = s) \<or>
         (err = IndexError \<and> d \<and>
          snd (import_words_from_file e f d s) = s\<lparr>wordlist_entropy_bits := None\<rparr>)"
  using import_cases [of e f d s] assms by auto

section \<open>The bounds of the random numbers\<close>

lemma generate_bounds:
  "randnum_min (snd (generate r up s)) = randnum_min s \<and>
   randnum_max (snd (generate r up s)) = randnum_max s"
  by (simp add: generate_def Let_def split: sum.splits prod.splits)

lemma generate_password_bounds:
  "randnum_min (snd (generate_password r s)) = randnum_min s \<and>
   randnum_max (snd (generate_password r s)) = randnum_max s"
  by (simp add: generate_password_def Let_def split: sum.splits prod.splits option.splits)

lemma generate_uuid4_bounds:
  "randnum_min (snd (generate_uuid4 r s)) = randnum_min s \<and>
   randnum_max (snd (generate_uuid4 r s)) = randnum_max s"
  by (simp add: generate_uuid4_def Let_def split: sum.splits prod.splits)

lemma import_bounds:
  "randnum_min (snd (import_words_from_file e f d s)) = randnum_min s \<and>
   randnum_max (snd (import_words_from_file e f d s)) = randnum_max s"
  by (simp add: import_words_from_file_def Let_def split: sum.splits)

lemma init_bounds:
  "randnum_min (snd (init e f d)) = MIN_NUM e \<and> randnum_max (snd (init e f d)) = MAX_NUM e"
  using import_bounds [of e _ d "init_fields e"]
  by (simp add: init_def load_internal_wordlist_def init_fields_def split: option.splits)

lemma bounds_nonnegative:
  assumes "0 \<le> MIN_NUM e" and "0 \<le> MAX_NUM e" and "reachable e s"
  shows "0 \<le> randnum_min s \<and> 0 \<le> randnum_max s"
  using assms(3)
proof (induction rule: reachable.induct)
  case (constructed inputfile is_diceware)
  with assms(1,2) show ?case by (simp add: init_bounds)
next
  case (set_randnum_min s v)
  then show ?case by (simp add: randnum_min_setter_def)
next
  case (set_randnum_max s v)
  then show ?case by (simp add: randnum_max_setter_def)
next
  case (set_separator s v)
  then show ?case by (simp add: separator_setter_def split: pyval.splits)
next
  case (call_import_words_from_file s inputfile is_diceware)
  then show ?case by (simp add: import_bounds)
next
  case (call_generate s r uppercase)
  then show ?case by (simp add: generate_bounds)
next
  case (call_generate_password s r)
  then show ?case by (simp add: generate_password_bounds)
next
  case (call_generate_uuid4 s r)
  then show ?case by (simp add: generate_uuid4_bounds)
qed (simp_all add: entropy_bits_req_setter_def amount_w_setter_def amount_n_setter_def
      passwordlen_setter_def wordlist_setter_def password_use_lowercase_setter_def
      password_use_uppercase_setter_def password_use_digits_setter_def
      password_use_punctuation_setter_def load_internal_wordlist_def)

text \<open>
  Claim C7, as the code has it. In every state reachable from a construction with
  non-negative \<open>MIN_NUM\<close> and \<open>MAX_NUM\<close> both bounds are non-negative, and an accepted
  assignment to one bound stores the assigned non-negative integer and changes nothing
  else. Neither setter looks at the other bound, so \<open>randnum_min \<le> randnum_max\<close> is not
  an invariant.
\<close>

theorem randnum_bounds:
  assumes "0 \<le> MIN_NUM e" and "0 \<le> MAX_NUM e" and "reachable e s"
  shows "0 \<le> randnum_min s \<and> 0 \<le> randnum_max s \<and>
         (fst (randnum_min_setter v s) = Inr () \<longrightarrow>
            0 \<le> int_of v \<and>
            snd (randnum_min_setter v s) = s\<lparr>randnum_min := int_of v\<rparr>) \<and>
         (fst (randnum_max_setter v s) = Inr () \<longrightarrow>
            0 \<le> int_of v \<and>
            snd (randnum_max_setter v s) = s\<lparr>randnum_max := int_of v\<rparr>)"
  using bounds_nonnegative [OF assms]
  by (simp add: randnum_min_setter_def randnum_max_setter_def)

theorem randnum_bounds_witness:
  "0 \<le> MIN_NUM sample_env \<and> 0 \<le> MAX_NUM sample_env \<and>
   reachable sample_env (init_fields sample_env) \<and>
   0 \<le> randnum_min (init_fields sample_env) \<and> 0 \<le> randnum_max (init_fields sample_env) \<and>
   fst (randnum_min_setter (PInt 7) (init_fields sample_env)) = Inr () \<and>
   snd (randnum_min_setter (PInt 7) (init_fields sample_env))
     = (init_fields sample_env)\<lparr>randnum_min := 7\<rparr> \<and>
   fst (randnum_max_setter (PInt 7) (init_fields sample_env)) = Inr () \<and>
   snd (randnum_max_setter (PInt 7) (init_fields sample_env))
     = (init_fields sample_env)\<lparr>randnum_max := 7\<rparr>"
proof -
  have a: "0 \<le> MIN_NUM sample_env" and b: "0 \<le> MAX_NUM sample_env"
    by (simp_all add: sample_env_def)
  have "fst (init sample_env None False) = Inr ()" by (simp add: init_def)
  from reachable.constructed [OF this] have c: "reachable sample_env (init_fields sample_env)"
    by (simp add: init_def)
  have d: "fst (randnum_min_setter (PInt 7) (init_fields sample_env)) = Inr ()"
    and e: "fst (randnum_max_setter (PInt 7) (init_fields sample_env)) = Inr ()"
    by (simp_all add: randnum_min_setter_def randnum_max_setter_def isinstance_int_def int_of_def)
  from a b c d e randnum_bounds [OF a b c, of "PInt 7"] show ?thesis
    by (simp add: int_of_def)
qed

text \<open>
  Two accepted assignments, \<open>randnum_min = 7\<close> and then \<open>randnum_max = 3\<close>, lead to a
  reachable state with \<open>randnum_min > randnum_max\<close>.
\<close>

theorem randnum_order_counterexample:
  "fst (randnum_min_setter (PInt 7) (init_fields sample_env)) = Inr () \<and>
   fst (randnum_max_setter (PInt 3)
          (snd (randnum_min_setter (PInt 7) (init_fields sample_env)))) = Inr () \<and>
   randnum_min (snd (randnum_max_setter (PInt 3)
          (snd (randnum_min_setter (PInt 7) (init_fields sample_env))))) = 7 \<and>
   randnum_max (snd (randnum_max_setter (PInt 3)
          (snd (randnum_min_setter (PInt 7) (init_fields sample_env))))) = 3 \<and>
   reachable sample_env (snd (randnum_max_setter (PInt 3)
          (snd (randnum_min_setter (PInt 7) (init_fields sample_env)))))"
proof -
  have "fst (init sample_env None False) = Inr ()" by (simp add: init_def)
  from reachable.constructed [OF this] have "reachable sample_env (init_fields sample_env)"
    by (simp add: init_def)
  then have "reachable sample_env (snd (randnum_max_setter (PInt 3)
          (snd (randnum_min_setter (PInt 7) (init_fields sample_env)))))"
    by (intro reachable.set_randnum_max reachable.set_randnum_min)
  then show ?thesis
    by (simp add: randnum_min_setter_def randnum_max_setter_def isinstance_int_def int_of_def)
qed

section \<open>A failed import\<close>

text \<open>
  Claim C6 at a failing input. With the built-in wordlist loaded (its cached entropy
  set), importing the single-column file \<open>words.txt\<close> as a diceware file ends in
  \<open>IndexError\<close>, and the cached entropy is gone: the object is not as it was before the
  failed call.
\<close>

theorem import_failure_clears_cache:
  "wordlist_entropy_bits (snd (load_internal_wordlist sample_env (init_fields sample_env)))
     = Some 2 \<and>
   import_words_from_file sample_env ''words.txt'' True
       (snd (load_internal_wordlist sample_env (init_fields sample_env)))
     = (Inl IndexError,
        (snd (load_internal_wordlist sample_env (init_fields sample_env)))
          \<lparr>wordlist_entropy_bits := None\<rparr>) \<and>
   snd (import_words_from_file sample_env ''words.txt'' True
          (snd (load_internal_wordlist sample_env (init_fields sample_env))))
     \<noteq> snd (load_internal_wordlist sample_env (init_fields sample_env))"
  by (simp add: import_words_from_file_def load_internal_wordlist_def isfile_notempty_def
      sample_env_def init_fields_def split_def is_space_def Let_def)

end
